theory Spec2Isabelle
  imports Main "HOL-Library.Word" "HOL-Library.Signed_Division" "HOL-Library.AList"
    "HOL-Library.Multiset"
begin

section \<open>Machine integers, instants and text\<close>

text \<open>
  The daemon is built for 64-bit targets, so Go's \<open>int\<close> and \<open>int64\<close> are both 64-bit
  two's-complement words: \<open>+\<close> wraps, comparisons with zero are signed. Instants read
  from \<open>time.Now()\<close> are natural numbers, \<open>0\<close> being the zero value of \<open>time.Time\<close>.
\<close>

type_synonym int64 = "64 word"
type_synonym Duration = "64 word"
type_synonym instant = nat

definition quo :: "int64 \<Rightarrow> int64 \<Rightarrow> int64" where
  \<comment> \<open>Go's \<open>/\<close> on signed integers, for a non-zero divisor: truncation towards zero.\<close>
  "quo a b = word_of_int (sint a sdiv sint b)"

definition Milliseconds :: "Duration \<Rightarrow> int64" where
  \<comment> \<open>\<open>time.Duration.Milliseconds\<close>: a Duration counts nanoseconds.\<close>
  "Milliseconds d = quo d 1000000"

fun digits :: "nat \<Rightarrow> string" where
  "digits n =
     (if n < 10 then [char_of (48 + n)]
      else digits (n div 10) @ [char_of (48 + n mod 10)])"

definition Itoa :: "int64 \<Rightarrow> string" where
  \<comment> \<open>\<open>strconv.Itoa\<close> and the \<open>%d\<close> verb: signed decimal.\<close>
  "Itoa x = (if sint x < 0 then CHR ''-'' # digits (nat (- sint x)) else digits (nat (sint x)))"

fun Join :: "string list \<Rightarrow> string \<Rightarrow> string" where
  \<comment> \<open>\<open>strings.Join\<close>\<close>
  "Join [] sep = []"
| "Join [x] sep = x"
| "Join (x # y # ys) sep = x @ sep @ Join (y # ys) sep"

definition fmt_v :: "string list \<Rightarrow> string" where
  \<comment> \<open>the \<open>%v\<close> verb on a \<open>[]string\<close>\<close>
  "fmt_v xs = ''['' @ Join xs '' '' @ '']''"

definition HasPrefix :: "string \<Rightarrow> string \<Rightarrow> bool" where
  "HasPrefix s pre = (take (length pre) s = pre)"

section \<open>Package protocol: the wire types\<close>

text \<open>
  \<open>ProcessState\<close> and \<open>Tier\<close> are string types in the source; a struct literal that
  leaves such a field out holds the empty string. Record fields carry a prefix where
  several structs of the source share a field name; \<open>Proc\<close> keeps the plain names.
\<close>

type_synonym ProcessState = string
type_synonym Tier = string

definition StateActive :: ProcessState where "StateActive = ''active''"
definition StateFrozen :: ProcessState where "StateFrozen = ''frozen''"
definition StateHibernated :: ProcessState where "StateHibernated = ''hibernated''"
definition StateDead :: ProcessState where "StateDead = ''dead''"

definition TierGPU :: Tier where "TierGPU = ''gpu''"
definition TierRAM :: Tier where "TierRAM = ''ram''"
definition TierDisk :: Tier where "TierDisk = ''disk''"

record Request =
  req_Method :: string
  req_Params :: string

record Event =
  ev_Time :: instant
  ev_Type :: string
  ev_Process :: string
  ev_Detail :: string
  ev_Duration :: int64

record RunParams =
  run_Name :: string
  run_Cmd :: "string list"
  run_Dir :: string
  run_GPU :: int64

record NameParams =
  np_Name :: string

record MigrateParams =
  mig_Name :: string
  mig_GPU :: int64

record LogsParams =
  lp_Name :: string
  lp_Lines :: int64
  lp_Follow :: bool

record GPUInfo =
  gi_Index :: int64
  gi_Name :: string
  gi_MemTotal :: int64
  gi_MemUsed :: int64
  gi_MemFree :: int64

record ProcessInfo =
  pi_Name :: string
  pi_PID :: int64
  pi_State :: ProcessState
  pi_GPU :: int64
  pi_MemMB :: int64
  pi_Age :: string
  pi_Started :: instant
  pi_Tier :: Tier

record MemoryInfo =
  HostRAMTotalMB :: int64
  HostRAMFreeMB :: int64
  HostRAMBudgetMB :: int64
  SnapshotsMB :: int64
  DiskUsedMB :: int64
  DiskBudgetMB :: int64

record Metrics =
  Requests :: int64
  CacheHits :: int64
  Freezes :: int64
  Thaws :: int64
  Forks :: int64
  Migrations :: int64
  Hibernations :: int64
  ColdStarts :: int64
  AvgFreezeMs :: int64
  AvgThawMs :: int64

record Capabilities =
  CUDACheckpoint :: bool
  CRIU :: bool
  DriverVersion :: string

record RunResult =
  rr_Name :: string
  rr_PID :: int64

record FreezeResult =
  fr_Name :: string
  fr_DurationMs :: int64
  fr_Tier :: Tier
  fr_MemMB :: int64

record ThawResult =
  tr_Name :: string
  tr_DurationMs :: int64
  tr_FromTier :: Tier
  tr_MemMB :: int64

record MigrateResult =
  mr_Name :: string
  mr_FromGPU :: int64
  mr_ToGPU :: int64

record LogsResult =
  lr_Lines :: "string list"

record StatusResult =
  sr_GPUs :: "GPUInfo list"
  sr_Processes :: "ProcessInfo list"
  sr_Memory :: MemoryInfo
  sr_Metrics :: Metrics
  sr_Events :: "Event list"
  sr_Caps :: Capabilities

text \<open>
  \<open>Response.Result\<close> is the JSON encoding of the value handed to \<open>OkResponse\<close>; the
  model keeps the value itself.
\<close>

datatype payload =
    NoPayload
  | RunPayload RunResult
  | FreezePayload FreezeResult
  | ThawPayload ThawResult
  | MigratePayload MigrateResult
  | StatusPayload StatusResult
  | LogsPayload LogsResult
  | StringPayload string

record Response =
  resp_OK :: bool
  resp_Result :: payload
  resp_Error :: string

definition OkResponse :: "payload \<Rightarrow> Response" where
  "OkResponse result = \<lparr>resp_OK = True, resp_Result = result, resp_Error = ''''\<rparr>"

definition ErrResponse :: "string \<Rightarrow> Response" where
  "ErrResponse msg = \<lparr>resp_OK = False, resp_Result = NoPayload, resp_Error = msg\<rparr>"

definition zeroMetrics :: Metrics where
  "zeroMetrics = \<lparr>Requests = 0, CacheHits = 0, Freezes = 0, Thaws = 0, Forks = 0,
     Migrations = 0, Hibernations = 0, ColdStarts = 0, AvgFreezeMs = 0, AvgThawMs = 0\<rparr>"

section \<open>Errors, and what the daemon does to the outside\<close>

text \<open>
  One constructor for each \<open>fmt.Errorf\<close> of the source. \<open>DivideByZero\<close> is the run-time
  panic of an integer division by zero, which is not an error value: no response is
  produced for it.
\<close>

datatype error =
    NotFound string
  | AlreadyExists string
  | EmptyCommand
  | NotActive string ProcessState
  | NotFrozen string ProcessState
  | NotAvailable
  | ToolFailure string int64 string string
  | OSError string
  | Wrapped string error
  | DivideByZero

datatype signal = SIGSTOP | SIGCONT | SIGTERM | SIGKILL

text \<open>
  The calls that leave the process, in the order they are issued. \<open>KillAfter\<close> is the
  goroutine of \<open>Kill\<close> that sleeps for the grace period and then signals.
\<close>

datatype syscall =
    Signal int64 signal
  | KillAfter nat int64 signal
  | Exec string "string list"
  | MkdirAll string
  | RemoveAll string
  | CreateFile string
  | StartCmd "string list" string "string list"
  | CloseFile string
  | ReadFile string

subsection \<open>The environment of one operation\<close>

text \<open>
  Everything an operation reads from outside the repository's code is a field of
  \<open>env\<close>: the outcome of each external call it may make, and the library functions
  (\<open>%q\<close> quoting, \<open>strings.TrimSpace\<close>, \<open>filepath.Join\<close>, \<open>json.Unmarshal\<close>) whose code
  is not part of the repository. No operation issues the same tool invocation twice, so
  a function of the arguments describes any behaviour of the tool during one operation.
  \<^item> \<open>run_tool binary args\<close>: what \<open>CombinedOutput\<close> of the tool gives, as the elapsed time,
    the output and the error of a failed run;
  \<^item> \<open>gpu_mem pid\<close>: \<open>gpu.ProcessGPUMem\<close>; \<open>query_gpus\<close>, \<open>host_mem\<close>, \<open>driver_version\<close>:
    the other queries of package \<open>gpu\<close>;
  \<^item> \<open>now_started\<close>, \<open>now_emit\<close>: \<open>time.Now()\<close> as read by \<open>Run\<close> for the start time
    and by \<open>emit\<close> for the time of the event; \<open>age_of t\<close>: the formatted
    \<open>time.Since(t)\<close>;
  \<^item> \<open>create_file\<close>, \<open>start_cmd\<close>, \<open>read_file\<close>: \<open>os.Create\<close>, \<open>cmd.Start\<close> (the pid of
    the child, or an error) and \<open>os.ReadFile\<close>; \<open>environ\<close>, \<open>getuid\<close>: \<open>os.Environ\<close>,
    \<open>os.Getuid\<close>; \<open>site_packages\<close>: the directories found under the home directories;
  \<^item> \<open>range_keys ks\<close>: the order in which a \<open>range\<close> over the map visits its keys
    \<open>ks\<close>; \<open>sort_choice xs\<close>: the order in which \<open>sort.Slice\<close> leaves entries that
    the comparison does not tell apart (see \<open>sort_Slice\<close>); \<open>new_chan\<close>: the channel that \<open>make\<close> returns; \<open>write_ok\<close>: whether the
    write of the response to the connection succeeded;
  \<^item> \<open>unmarshal_run\<close> and the like: \<open>json.Unmarshal\<close> of the request's parameters into
    the parameter struct of the method, or the decoder's message.
\<close>

record env =
  run_tool :: "string \<Rightarrow> string list \<Rightarrow> Duration \<times> string \<times> string option"
  gpu_mem :: "int64 \<Rightarrow> int64"
  now_started :: instant
  now_emit :: instant
  create_file :: "string \<Rightarrow> string option"
  start_cmd :: "string list \<Rightarrow> string \<Rightarrow> string list \<Rightarrow> string + int64"
  environ :: "string list"
  getuid :: int64
  site_packages :: "string list"
  read_file :: "string \<Rightarrow> string + string"
  query_gpus :: "GPUInfo list"
  host_mem :: "int64 \<times> int64"
  driver_version :: string
  age_of :: "instant \<Rightarrow> string"
  range_keys :: "string list \<Rightarrow> string list"
  sort_choice :: "ProcessInfo list \<Rightarrow> ProcessInfo list"
  new_chan :: nat
  write_ok :: bool
  fmt_q :: "string \<Rightarrow> string"
  trim_space :: "string \<Rightarrow> string"
  path_join :: "string \<Rightarrow> string \<Rightarrow> string"
  unmarshal_run :: "string \<Rightarrow> string + RunParams"
  unmarshal_name :: "string \<Rightarrow> string + NameParams"
  unmarshal_migrate :: "string \<Rightarrow> string + MigrateParams"
  unmarshal_logs :: "string \<Rightarrow> string + LogsParams"

fun Error :: "env \<Rightarrow> error \<Rightarrow> string" where
  \<comment> \<open>the text of \<open>err.Error()\<close>\<close>
  "Error E (NotFound n) = ''process '' @ fmt_q E n @ '' not found''"
| "Error E (AlreadyExists n) = ''process '' @ fmt_q E n @ '' already exists''"
| "Error E EmptyCommand = ''empty command''"
| "Error E (NotActive n s) = ''process '' @ fmt_q E n @ '' is '' @ s @ '', not active''"
| "Error E (NotFrozen n s) = ''process '' @ fmt_q E n @ '' is '' @ s @ '', not frozen''"
| "Error E NotAvailable = ''cuda-checkpoint not available''"
| "Error E (ToolFailure action pid out e) =
     ''cuda-checkpoint --'' @ action @ '' pid='' @ Itoa pid @ '': '' @ trim_space E out
       @ '' ('' @ e @ '')''"
| "Error E (OSError e) = e"
| "Error E (Wrapped pre e) = pre @ '': '' @ Error E e"
| "Error E DivideByZero = ''runtime error: integer divide by zero''"

section \<open>Package checkpoint: the cuda-checkpoint adapter\<close>

record CUDA =
  Binary :: string
  Available :: bool

definition tool_args :: "string \<Rightarrow> int64 \<Rightarrow> string list \<Rightarrow> string list" where
  "tool_args action pid extra = [''--action'', action, ''--pid'', Itoa pid] @ extra"

definition exec :: "CUDA \<Rightarrow> env \<Rightarrow> string \<Rightarrow> int64 \<Rightarrow> string list \<Rightarrow> syscall list
    \<Rightarrow> (Duration \<times> error option) \<times> syscall list" where
  "exec c E action pid extra io =
     (let args = tool_args action pid extra;
          (elapsed, out, err) = run_tool E (Binary c) args;
          io' = io @ [Exec (Binary c) args]
      in case err of
           Some e \<Rightarrow> ((elapsed, Some (ToolFailure action pid out e)), io')
         | None \<Rightarrow> ((elapsed, None), io'))"

definition run :: "CUDA \<Rightarrow> env \<Rightarrow> string \<Rightarrow> int64 \<Rightarrow> syscall list
    \<Rightarrow> (Duration \<times> error option) \<times> syscall list" where
  "run c E action pid io =
     (if \<not> Available c then ((0, Some NotAvailable), io)
      else exec c E action pid [] io)"

definition Lock :: "CUDA \<Rightarrow> env \<Rightarrow> int64 \<Rightarrow> syscall list
    \<Rightarrow> (Duration \<times> error option) \<times> syscall list" where
  "Lock c E pid io = run c E ''lock'' pid io"

definition Checkpoint :: "CUDA \<Rightarrow> env \<Rightarrow> int64 \<Rightarrow> syscall list
    \<Rightarrow> (Duration \<times> error option) \<times> syscall list" where
  "Checkpoint c E pid io = run c E ''checkpoint'' pid io"

definition Restore :: "CUDA \<Rightarrow> env \<Rightarrow> int64 \<Rightarrow> syscall list
    \<Rightarrow> (Duration \<times> error option) \<times> syscall list" where
  "Restore c E pid io = run c E ''restore'' pid io"

definition Unlock :: "CUDA \<Rightarrow> env \<Rightarrow> int64 \<Rightarrow> syscall list
    \<Rightarrow> (Duration \<times> error option) \<times> syscall list" where
  "Unlock c E pid io = run c E ''unlock'' pid io"

definition RestoreOnDevice :: "CUDA \<Rightarrow> env \<Rightarrow> int64 \<Rightarrow> int64 \<Rightarrow> syscall list
    \<Rightarrow> (Duration \<times> error option) \<times> syscall list" where
  "RestoreOnDevice c E pid device io =
     (if \<not> Available c then ((0, Some NotAvailable), io)
      else exec c E ''restore'' pid [''--device'', Itoa device] io)"

definition CUDA_Freeze :: "CUDA \<Rightarrow> env \<Rightarrow> int64 \<Rightarrow> syscall list
    \<Rightarrow> (Duration \<times> error option) \<times> syscall list" where
  \<comment> \<open>\<open>CUDA.Freeze\<close>: the lock, checkpoint sequence\<close>
  "CUDA_Freeze c E pid io =
     (let ((lockDur, err), io1) = Lock c E pid io
      in case err of
           Some e \<Rightarrow> ((lockDur, Some (Wrapped ''lock'' e)), io1)
         | None \<Rightarrow>
            (let ((ckptDur, err), io2) = Checkpoint c E pid io1;
                 total = lockDur + ckptDur
             in case err of
                  Some e \<Rightarrow>
                    (let (_, io3) = Unlock c E pid io2
                     in ((total, Some (Wrapped ''checkpoint'' e)), io3))
                | None \<Rightarrow> ((total, None), io2)))"

definition CUDA_Thaw :: "CUDA \<Rightarrow> env \<Rightarrow> int64 \<Rightarrow> syscall list
    \<Rightarrow> (Duration \<times> error option) \<times> syscall list" where
  \<comment> \<open>\<open>CUDA.Thaw\<close>: the restore, unlock sequence\<close>
  "CUDA_Thaw c E pid io =
     (let ((restDur, err), io1) = Restore c E pid io
      in case err of
           Some e \<Rightarrow> ((restDur, Some (Wrapped ''restore'' e)), io1)
         | None \<Rightarrow>
            (let ((unlDur, err), io2) = Unlock c E pid io1;
                 total = restDur + unlDur
             in case err of
                  Some e \<Rightarrow> ((total, Some (Wrapped ''unlock'' e)), io2)
                | None \<Rightarrow> ((total, None), io2)))"

section \<open>Package daemon: the registry\<close>

text \<open>
  \<open>Cmd\<close> is the argument vector of the spawned child, \<open>logFile\<close> the path of the open log
  file (\<open>None\<close> for a nil handle). The registry \<open>procs\<close> is a Go map from names to
  pointers: here an association list with one pair for each key, read with \<open>map_of\<close>;
  a write through the pointer is \<open>AList.update\<close> at the entry's key. The field \<open>io\<close> is
  not a field of the Go struct: it records the calls issued to the operating system and
  to the tool, oldest first. Log lines written to standard error are left out.
\<close>

record Proc =
  Name :: string
  PID :: int64
  State :: ProcessState
  GPU :: int64
  MemMB :: int64
  Started :: instant
  Cmd :: "string list"
  LogPath :: string
  logFile :: "string option"

record Config =
  RAMBudgetMB :: int64
  LogDir :: string

record Daemon =
  procs :: "(string \<times> Proc) list"
  events :: "Event list"
  metrics :: Metrics
  cuda :: CUDA
  cfg :: Config
  subs :: "(nat \<times> Event list) list"
  freezeTotalMs :: int64
  thawTotalMs :: int64
  io :: "syscall list"

definition New :: "env \<Rightarrow> CUDA \<Rightarrow> Config \<Rightarrow> Daemon" where
  \<comment> \<open>\<open>c\<close> is what \<open>checkpoint.NewCUDA()\<close> found when it probed for the tool\<close>
  "New E c cfg0 =
     (let cfg1 = (if LogDir cfg0 = [] then cfg0\<lparr>LogDir := ''/tmp/gpusched/logs''\<rparr> else cfg0);
          cfg2 = (if RAMBudgetMB cfg1 = 0
                  then (let total = fst (host_mem E)
                        in if 0 <s total then cfg1\<lparr>RAMBudgetMB := quo (total * 80) 100\<rparr>
                           else cfg1\<lparr>RAMBudgetMB := 64 * 1024\<rparr>)
                  else cfg1)
      in \<lparr>procs = [], events = [], metrics = zeroMetrics, cuda = c, cfg = cfg2, subs = [],
          freezeTotalMs = 0, thawTotalMs = 0, io = [MkdirAll (LogDir cfg2)]\<rparr>)"

definition emit :: "env \<Rightarrow> Event \<Rightarrow> Daemon \<Rightarrow> Daemon" where
  \<comment> \<open>a subscriber channel buffers 64 events; the send does not block, a full channel
      drops the event\<close>
  "emit E e d =
     (let e1 = e\<lparr>ev_Time := now_emit E\<rparr>;
          evs = events d @ [e1];
          evs1 = (if length evs > 1000 then drop (length evs - 500) evs else evs)
      in d\<lparr>events := evs1,
           subs := map (\<lambda>(ch, buf). if length buf < 64 then (ch, buf @ [e1]) else (ch, buf))
                     (subs d)\<rparr>)"

definition event :: "string \<Rightarrow> string \<Rightarrow> string \<Rightarrow> int64 \<Rightarrow> Event" where
  \<comment> \<open>an \<open>Event\<close> literal; \<open>Time\<close> is set by \<open>emit\<close>\<close>
  "event ty process detail dur =
     \<lparr>ev_Time = 0, ev_Type = ty, ev_Process = process, ev_Detail = detail, ev_Duration = dur\<rparr>"

definition arrow_to :: string where
  \<comment> \<open>U+2192 in UTF-8\<close>
  "arrow_to = [CHR 0xE2, CHR 0x86, CHR 0x92]"

definition arrow_from :: string where
  \<comment> \<open>U+2190 in UTF-8\<close>
  "arrow_from = [CHR 0xE2, CHR 0x86, CHR 0x90]"

fun replacePythonPath :: "string list \<Rightarrow> string \<Rightarrow> string list option" where
  \<comment> \<open>the loop of \<open>appendPythonPath\<close> over the environment: the first \<open>PYTHONPATH=\<close>
      entry is extended; \<open>None\<close> when there is none\<close>
  "replacePythonPath [] extra = None"
| "replacePythonPath (e # es) extra =
     (if HasPrefix e ''PYTHONPATH='' then Some ((e @ '':'' @ extra) # es)
      else map_option (\<lambda>es'. e # es') (replacePythonPath es extra))"

definition appendPythonPath :: "env \<Rightarrow> string list \<Rightarrow> string list" where
  \<comment> \<open>\<open>site_packages E\<close> is what the scan of \<open>/home\<close> collected in \<open>extraPaths\<close>\<close>
  "appendPythonPath E envs =
     (let extraPaths = site_packages E
      in if extraPaths = [] then envs
         else (let extra = Join extraPaths '':''
               in case replacePythonPath envs extra of
                    Some envs' \<Rightarrow> envs'
                  | None \<Rightarrow> envs @ [''PYTHONPATH='' @ extra]))"

definition Run :: "env \<Rightarrow> Daemon \<Rightarrow> RunParams \<Rightarrow> (error + RunResult) \<times> Daemon" where
  "Run E d params =
     (let name = run_Name params in
      if map_of (procs d) name \<noteq> None then (Inl (AlreadyExists name), d)
      else if run_Cmd params = [] then (Inl EmptyCommand, d)
      else
       (let logPath = path_join E (LogDir (cfg d)) (name @ ''.log'');
            io1 = io d @ [CreateFile logPath]
        in case create_file E logPath of
             Some e \<Rightarrow> (Inl (Wrapped ''creating log'' (OSError e)), d\<lparr>io := io1\<rparr>)
           | None \<Rightarrow>
              (let env0 = environ E @ [''GPUSCHED_MANAGED=1'',
                            ''CUDA_VISIBLE_DEVICES='' @ Itoa (run_GPU params)];
                   env1 = (if getuid E = 0 then appendPythonPath E env0 else env0);
                   io2 = io1 @ [StartCmd (run_Cmd params) (run_Dir params) env1]
               in case start_cmd E (run_Cmd params) (run_Dir params) env1 of
                    Inl e \<Rightarrow>
                      (Inl (Wrapped ''starting process'' (OSError e)),
                       d\<lparr>io := io2 @ [CloseFile logPath]\<rparr>)
                  | Inr pid \<Rightarrow>
                     (let p = \<lparr>Name = name, PID = pid, State = StateActive,
                               GPU = run_GPU params, MemMB = 0, Started = now_started E,
                               Cmd = run_Cmd params, LogPath = logPath,
                               logFile = Some logPath\<rparr>;
                          d1 = d\<lparr>procs := AList.update name p (procs d),
                                 metrics := (metrics d)\<lparr>ColdStarts := ColdStarts (metrics d) + 1\<rparr>,
                                 io := io2\<rparr>;
                          d2 = emit E (event ''run'' name
                                 (''pid='' @ Itoa pid @ '' gpu='' @ Itoa (run_GPU params)
                                    @ '' cmd='' @ fmt_v (run_Cmd params)) 0) d1
                      in (Inr \<lparr>rr_Name = name, rr_PID = pid\<rparr>, d2)))))"

definition refreshMem :: "env \<Rightarrow> Proc \<Rightarrow> Proc" where
  \<comment> \<open>\<open>if mem := gpu.ProcessGPUMem(p.PID); mem > 0 { p.MemMB = mem }\<close>\<close>
  "refreshMem E p = (let mem = gpu_mem E (PID p) in if 0 <s mem then p\<lparr>MemMB := mem\<rparr> else p)"

definition Freeze :: "env \<Rightarrow> Daemon \<Rightarrow> string \<Rightarrow> (error + FreezeResult) \<times> Daemon" where
  "Freeze E d name =
     (case map_of (procs d) name of
        None \<Rightarrow> (Inl (NotFound name), d)
      | Some p \<Rightarrow>
         if State p \<noteq> StateActive then (Inl (NotActive name (State p)), d)
         else if \<not> Available (cuda d) then (Inl NotAvailable, d)
         else
          (let p1 = refreshMem E p;
               d1 = d\<lparr>procs := AList.update name p1 (procs d)\<rparr>;
               ((dur, err), io1) = CUDA_Freeze (cuda d) E (PID p1) (io d)
           in case err of
                Some e \<Rightarrow> (Inl (Wrapped ''cuda freeze'' e), d1\<lparr>io := io1\<rparr>)
              | None \<Rightarrow>
                 (let io2 = io1 @ [Signal (PID p1) SIGSTOP];
                      p2 = p1\<lparr>State := StateFrozen\<rparr>;
                      n = Freezes (metrics d) + 1;
                      total = freezeTotalMs d + Milliseconds dur;
                      d2 = d1\<lparr>procs := AList.update name p2 (procs d1),
                             metrics := (metrics d)\<lparr>Freezes := n\<rparr>,
                             freezeTotalMs := total, io := io2\<rparr>
                  in if n = 0 then (Inl DivideByZero, d2)
                     else
                      (let d3 = d2\<lparr>metrics := (metrics d2)\<lparr>AvgFreezeMs := quo total n\<rparr>\<rparr>;
                           d4 = emit E (event ''freeze'' name
                                  (arrow_to @ '' RAM ('' @ Itoa (MemMB p2) @ '' MB)'')
                                  (Milliseconds dur)) d3
                       in (Inr \<lparr>fr_Name = name, fr_DurationMs = Milliseconds dur,
                                fr_Tier = [], fr_MemMB = MemMB p2\<rparr>, d4)))))"

definition Thaw :: "env \<Rightarrow> Daemon \<Rightarrow> string \<Rightarrow> (error + ThawResult) \<times> Daemon" where
  "Thaw E d name =
     (case map_of (procs d) name of
        None \<Rightarrow> (Inl (NotFound name), d)
      | Some p \<Rightarrow>
         if State p \<noteq> StateFrozen then (Inl (NotFrozen name (State p)), d)
         else
          (let io1 = io d @ [Signal (PID p) SIGCONT];
               ((dur, err), io2) = CUDA_Thaw (cuda d) E (PID p) io1
           in case err of
                Some e \<Rightarrow>
                  (Inl (Wrapped ''cuda thaw'' e), d\<lparr>io := io2 @ [Signal (PID p) SIGSTOP]\<rparr>)
              | None \<Rightarrow>
                 (let p1 = p\<lparr>State := StateActive\<rparr>;
                      n = Thaws (metrics d) + 1;
                      total = thawTotalMs d + Milliseconds dur;
                      d1 = d\<lparr>procs := AList.update name p1 (procs d),
                             metrics := (metrics d)\<lparr>Thaws := n\<rparr>,
                             thawTotalMs := total, io := io2\<rparr>
                  in if n = 0 then (Inl DivideByZero, d1)
                     else
                      (let d2 = d1\<lparr>metrics := (metrics d1)\<lparr>AvgThawMs := quo total n\<rparr>\<rparr>;
                           d3 = emit E (event ''thaw'' (Name p1)
                                  (arrow_from @ '' RAM ('' @ Itoa (MemMB p1) @ '' MB)'')
                                  (Milliseconds dur)) d2
                       in (Inr \<lparr>tr_Name = Name p1, tr_DurationMs = Milliseconds dur,
                                tr_FromTier = [], tr_MemMB = MemMB p1\<rparr>, d3)))))"

definition closeLog :: "Proc \<Rightarrow> syscall list" where
  \<comment> \<open>\<open>if p.logFile != nil { p.logFile.Close() }\<close>\<close>
  "closeLog p = (case logFile p of Some f \<Rightarrow> [CloseFile f] | None \<Rightarrow> [])"

definition Kill :: "env \<Rightarrow> Daemon \<Rightarrow> string \<Rightarrow> error option \<times> Daemon" where
  "Kill E d name =
     (case map_of (procs d) name of
        None \<Rightarrow> (Some (NotFound name), d)
      | Some p \<Rightarrow>
         (let io1 = io d @ (if State p = StateFrozen then [Signal (PID p) SIGCONT] else [])
                      @ [Signal (PID p) SIGTERM, KillAfter 3 (PID p) SIGKILL];
              p1 = p\<lparr>State := StateDead\<rparr>;
              d1 = d\<lparr>procs := AList.update name p1 (procs d), io := io1 @ closeLog p1\<rparr>;
              d2 = emit E (event ''kill'' name [] 0) d1
          in (None, d2\<lparr>procs := AList.delete name (procs d2)\<rparr>)))"

definition Migrate :: "env \<Rightarrow> Daemon \<Rightarrow> MigrateParams \<Rightarrow> (error + MigrateResult) \<times> Daemon" where
  "Migrate E d params =
     (let name = mig_Name params in
      case map_of (procs d) name of
        None \<Rightarrow> (Inl (NotFound name), d)
      | Some p \<Rightarrow>
         if \<not> Available (cuda d) then (Inl NotAvailable, d)
         else
          (let fromGPU = GPU p;
               p1 = (if State p = StateActive then refreshMem E p else p);
               d1 = (if State p = StateActive
                     then d\<lparr>procs := AList.update name p1 (procs d)\<rparr> else d);
               ((_, ferr), io1) =
                  (if State p = StateActive then CUDA_Freeze (cuda d) E (PID p1) (io d)
                   else ((0, None), io d))
           in case ferr of
                Some e \<Rightarrow> (Inl (Wrapped ''freeze for migrate'' e), d1\<lparr>io := io1\<rparr>)
              | None \<Rightarrow>
                 (let io2 = io1 @ (if State p = StateActive then [Signal (PID p1) SIGSTOP] else [])
                              @ [Signal (PID p1) SIGCONT];
                      ((dur, rerr), io3) =
                         RestoreOnDevice (cuda d) E (PID p1) (mig_GPU params) io2
                  in case rerr of
                       Some e \<Rightarrow>
                         (Inl (Wrapped (''restore on gpu '' @ Itoa (mig_GPU params)) e),
                          d1\<lparr>io := io3\<rparr>)
                     | None \<Rightarrow>
                        (let ((_, uerr), io4) = Unlock (cuda d) E (PID p1) io3
                         in case uerr of
                              Some e \<Rightarrow> (Inl (Wrapped ''unlock after migrate'' e), d1\<lparr>io := io4\<rparr>)
                            | None \<Rightarrow>
                               (let p2 = p1\<lparr>State := StateActive, GPU := mig_GPU params\<rparr>;
                                    d2 = d1\<lparr>procs := AList.update name p2 (procs d1),
                                           metrics := (metrics d)
                                             \<lparr>Migrations := Migrations (metrics d) + 1\<rparr>,
                                           io := io4\<rparr>;
                                    d3 = emit E (event ''migrate'' name
                                           (''GPU '' @ Itoa fromGPU @ '' '' @ arrow_to @ '' GPU ''
                                              @ Itoa (mig_GPU params))
                                           (Milliseconds dur)) d2
                                in (Inr \<lparr>mr_Name = name, mr_FromGPU = fromGPU,
                                         mr_ToGPU = mig_GPU params\<rparr>, d3))))))"

definition order :: "(ProcessState \<times> int64) list" where
  \<comment> \<open>the map literal inside the comparison function of \<open>Status\<close>\<close>
  "order = [(StateActive, 0), (StateFrozen, 1), (StateDead, 2)]"

definition order_of :: "ProcessState \<Rightarrow> int64" where
  \<comment> \<open>\<open>order[s]\<close>: a key that is not in a Go map reads as the zero value\<close>
  "order_of s = (case map_of order s of Some v \<Rightarrow> v | None \<Rightarrow> 0)"

definition less_state :: "ProcessInfo \<Rightarrow> ProcessInfo \<Rightarrow> bool" where
  "less_state a b = (order_of (pi_State a) <s order_of (pi_State b))"

text \<open>
  \<open>sort.Slice\<close> promises a permutation ordered by the comparison function and nothing
  about the order of elements that the comparison does not tell apart; which of the
  ordered permutations it returns is the library's choice. The model takes that choice
  from the environment: \<open>choice xs\<close> rearranges the slice (a \<open>choice\<close> that is not a
  rearrangement is ignored), and the insertion sort below, which keeps equal elements
  in the order it finds them, orders the result. Every permutation ordered by the
  comparison is obtained this way, from the \<open>choice\<close> that returns it. With the
  identity as \<open>choice\<close> this is what the library itself runs on a slice of up to twelve
  elements: each element moves left while it is less than its left neighbour. The
  accumulator holds the sorted prefix, last element first.
\<close>

fun insertLeft :: "('a \<Rightarrow> 'a \<Rightarrow> bool) \<Rightarrow> 'a \<Rightarrow> 'a list \<Rightarrow> 'a list" where
  "insertLeft lt x [] = [x]"
| "insertLeft lt x (y # ys) =
     (if lt x y then y # insertLeft lt x ys else x # y # ys)"

definition sort_Slice :: "('a list \<Rightarrow> 'a list) \<Rightarrow> ('a \<Rightarrow> 'a \<Rightarrow> bool) \<Rightarrow> 'a list \<Rightarrow> 'a list" where
  "sort_Slice choice lt xs =
     (let ys = choice xs;
          zs = (if mset ys = mset xs then ys else xs)
      in rev (foldl (\<lambda>acc x. insertLeft lt x acc) [] zs))"

fun Status_loop :: "env \<Rightarrow> string list \<Rightarrow> Daemon \<Rightarrow> ProcessInfo list \<Rightarrow> int64
    \<Rightarrow> Daemon \<times> ProcessInfo list \<times> int64" where
  \<comment> \<open>the \<open>range\<close> loop of \<open>Status\<close> over the keys in the order the run-time visits them\<close>
  "Status_loop E [] d infos snapshotsMB = (d, infos, snapshotsMB)"
| "Status_loop E (k # ks) d infos snapshotsMB =
     (case map_of (procs d) k of
        None \<Rightarrow> Status_loop E ks d infos snapshotsMB
      | Some p \<Rightarrow>
         (let p1 = (if State p = StateActive then refreshMem E p else p);
              d1 = (if State p = StateActive
                    then d\<lparr>procs := AList.update k p1 (procs d)\<rparr> else d);
              tier = (if State p1 = StateFrozen then TierRAM else TierGPU);
              snapshotsMB1 = (if State p1 = StateFrozen then snapshotsMB + MemMB p1
                              else snapshotsMB);
              info = \<lparr>pi_Name = Name p1, pi_PID = PID p1, pi_State = State p1,
                       pi_GPU = GPU p1, pi_MemMB = MemMB p1, pi_Age = age_of E (Started p1),
                       pi_Started = Started p1, pi_Tier = tier\<rparr>
          in Status_loop E ks d1 (infos @ [info]) snapshotsMB1))"

definition Status :: "env \<Rightarrow> Daemon \<Rightarrow> StatusResult \<times> Daemon" where
  \<comment> \<open>\<open>pi_Age\<close> is \<open>formatDuration(time.Since(p.Started))\<close>, read from the environment\<close>
  "Status E d =
     (let (d1, infos, snapshotsMB) =
            Status_loop E (range_keys E (map fst (procs d))) d [] 0;
          sorted_infos = sort_Slice (sort_choice E) less_state infos;
          recentEvents = (if length (events d1) > 20
                          then drop (length (events d1) - 20) (events d1) else events d1)
      in (\<lparr>sr_GPUs = query_gpus E, sr_Processes = sorted_infos,
           sr_Memory = \<lparr>HostRAMTotalMB = fst (host_mem E), HostRAMFreeMB = snd (host_mem E),
                         HostRAMBudgetMB = RAMBudgetMB (cfg d1), SnapshotsMB = snapshotsMB,
                         DiskUsedMB = 0, DiskBudgetMB = 0\<rparr>,
           sr_Metrics = metrics d1, sr_Events = recentEvents,
           sr_Caps = \<lparr>CUDACheckpoint = Available (cuda d1), CRIU = False,
                       DriverVersion = driver_version E\<rparr>\<rparr>, d1))"

fun splitLoop :: "string \<Rightarrow> string \<Rightarrow> string list" where
  "splitLoop [] cur = (if cur = [] then [] else [cur])"
| "splitLoop (c # cs) cur =
     (if c = CHR 0x0A then cur # splitLoop cs [] else splitLoop cs (cur @ [c]))"

definition splitLines :: "string \<Rightarrow> string list" where
  "splitLines s = (if s = [] then [] else splitLoop s [])"

definition Logs :: "env \<Rightarrow> Daemon \<Rightarrow> string \<Rightarrow> int64 \<Rightarrow> (error + LogsResult) \<times> Daemon" where
  "Logs E d name lines =
     (case map_of (procs d) name of
        None \<Rightarrow> (Inl (NotFound name), d)
      | Some p \<Rightarrow>
         (let d1 = d\<lparr>io := io d @ [ReadFile (LogPath p)]\<rparr>
          in case read_file E (LogPath p) of
               Inl e \<Rightarrow> (Inl (Wrapped ''reading logs'' (OSError e)), d1)
             | Inr data \<Rightarrow>
                (let allLines = splitLines data;
                     n = length allLines
                 in (Inr \<lparr>lr_Lines =
                            (if 0 <s lines \<and> sint lines < int n
                             then drop (n - nat (sint lines)) allLines else allLines)\<rparr>,
                     d1))))"

definition Subscribe :: "env \<Rightarrow> Daemon \<Rightarrow> nat \<times> Daemon" where
  \<comment> \<open>\<open>new_chan E\<close> names the channel that \<open>make\<close> allocates\<close>
  "Subscribe E d = (new_chan E, d\<lparr>subs := subs d @ [(new_chan E, [])]\<rparr>)"

fun removeChan :: "nat \<Rightarrow> (nat \<times> Event list) list \<Rightarrow> (nat \<times> Event list) list" where
  "removeChan ch [] = []"
| "removeChan ch (s # ss) = (if fst s = ch then ss else s # removeChan ch ss)"

definition Unsubscribe :: "Daemon \<Rightarrow> nat \<Rightarrow> Daemon" where
  "Unsubscribe d ch = d\<lparr>subs := removeChan ch (subs d)\<rparr>"

definition reply :: "env \<Rightarrow> error + 'a \<Rightarrow> ('a \<Rightarrow> payload) \<Rightarrow> Response option" where
  \<comment> \<open>\<open>if err != nil { return ErrResponse(err.Error()) }; return OkResponse(res)\<close>;
      \<open>None\<close> when the operation panicked, so that nothing is returned\<close>
  "reply E r mk =
     (case r of
        Inl err \<Rightarrow> if err = DivideByZero then None else Some (ErrResponse (Error E err))
      | Inr res \<Rightarrow> Some (OkResponse (mk res)))"

definition recvEvent :: "Daemon \<Rightarrow> nat \<Rightarrow> Daemon" where
  \<comment> \<open>a subscriber takes the oldest event out of its channel\<close>
  "recvEvent d ch =
     d\<lparr>subs := map (\<lambda>(c, buf). if c = ch then (c, tl buf) else (c, buf)) (subs d)\<rparr>"

definition Handle :: "env \<Rightarrow> Daemon \<Rightarrow> Request \<Rightarrow> Response option \<times> Daemon" where
  "Handle E d req =
     (let d0 = d\<lparr>metrics := (metrics d)\<lparr>Requests := Requests (metrics d) + 1\<rparr>\<rparr>;
          m = req_Method req
      in if m = ''run'' then
           (case unmarshal_run E (req_Params req) of
              Inl e \<Rightarrow> (Some (ErrResponse (''bad params: '' @ e)), d0)
            | Inr p \<Rightarrow> (let (res, d1) = Run E d0 p in (reply E res RunPayload, d1)))
         else if m = ''freeze'' then
           (case unmarshal_name E (req_Params req) of
              Inl e \<Rightarrow> (Some (ErrResponse (''bad params: '' @ e)), d0)
            | Inr p \<Rightarrow>
               (let (res, d1) = Freeze E d0 (np_Name p) in (reply E res FreezePayload, d1)))
         else if m = ''thaw'' then
           (case unmarshal_name E (req_Params req) of
              Inl e \<Rightarrow> (Some (ErrResponse (''bad params: '' @ e)), d0)
            | Inr p \<Rightarrow>
               (let (res, d1) = Thaw E d0 (np_Name p) in (reply E res ThawPayload, d1)))
         else if m = ''kill'' then
           (case unmarshal_name E (req_Params req) of
              Inl e \<Rightarrow> (Some (ErrResponse (''bad params: '' @ e)), d0)
            | Inr p \<Rightarrow>
               (let (err, d1) = Kill E d0 (np_Name p)
                in (reply E (case err of Some e \<Rightarrow> Inl e | None \<Rightarrow> Inr ''ok'')
                      StringPayload, d1)))
         else if m = ''migrate'' then
           (case unmarshal_migrate E (req_Params req) of
              Inl e \<Rightarrow> (Some (ErrResponse (''bad params: '' @ e)), d0)
            | Inr p \<Rightarrow> (let (res, d1) = Migrate E d0 p in (reply E res MigratePayload, d1)))
         else if m = ''status'' then
           (let (res, d1) = Status E d0 in (Some (OkResponse (StatusPayload res)), d1))
         else if m = ''logs'' then
           (case unmarshal_logs E (req_Params req) of
              Inl e \<Rightarrow> (Some (ErrResponse (''bad params: '' @ e)), d0)
            | Inr p \<Rightarrow>
               (let (res, d1) = Logs E d0 (lp_Name p) (if lp_Lines p = 0 then 50 else lp_Lines p)
                in (reply E res LogsPayload, d1)))
         else (Some (ErrResponse (''unknown method: '' @ m)), d0))"

fun Shutdown_loop :: "string list \<Rightarrow> Daemon \<Rightarrow> Daemon" where
  "Shutdown_loop [] d = d"
| "Shutdown_loop (k # ks) d =
     (case map_of (procs d) k of
        None \<Rightarrow> Shutdown_loop ks d
      | Some p \<Rightarrow>
         Shutdown_loop ks
           (d\<lparr>io := io d
                @ (if State p = StateActive then [Signal (PID p) SIGTERM]
                   else if State p = StateFrozen
                   then [Signal (PID p) SIGCONT, Signal (PID p) SIGTERM] else [])
                @ closeLog p\<rparr>))"

definition Shutdown :: "env \<Rightarrow> Daemon \<Rightarrow> Daemon" where
  "Shutdown E d = (Shutdown_loop (range_keys E (map fst (procs d))) d)\<lparr>subs := []\<rparr>"

definition monitorProcess :: "env \<Rightarrow> Daemon \<Rightarrow> string \<Rightarrow> string option \<Rightarrow> Daemon" where
  \<comment> \<open>the part of the exit watcher that runs once \<open>cmd.Wait()\<close> has returned \<open>err\<close>\<close>
  "monitorProcess E d name err =
     (case map_of (procs d) name of
        None \<Rightarrow> d
      | Some p \<Rightarrow>
         if State p = StateDead then d
         else
          (let detail = (case err of Some e \<Rightarrow> e | None \<Rightarrow> ''exited'');
               p1 = p\<lparr>State := StateDead\<rparr>
           in emit E (event ''exit'' name detail 0)
                (d\<lparr>procs := AList.update name p1 (procs d), io := io d @ closeLog p1\<rparr>)))"

definition sampleMem :: "env \<Rightarrow> Daemon \<Rightarrow> string \<Rightarrow> Daemon" where
  \<comment> \<open>one round of the sampling goroutine that \<open>Run\<close> starts, for the entry it holds\<close>
  "sampleMem E d name =
     (case map_of (procs d) name of
        None \<Rightarrow> d
      | Some p \<Rightarrow>
         if State p \<noteq> StateActive then d
         else d\<lparr>procs := AList.update name (refreshMem E p) (procs d)\<rparr>)"

section \<open>Package daemon: the server\<close>

text \<open>
  A line read from the connection either fails to decode (\<open>BadLine\<close>, with the
  decoder's message) or is a request. Each line comes with the environment of the
  operation it starts. The result of \<open>handleConn\<close> is the daemon, the responses written,
  and the channel the connection streams from once it has subscribed.
\<close>

datatype line = BadLine string | ReqLine Request

definition handleSubscribe :: "env \<Rightarrow> Daemon \<Rightarrow> (Daemon \<times> Response list) \<times> nat" where
  \<comment> \<open>up to the first response; the event loop that follows and the deferred
      \<open>Unsubscribe\<close> belong to the stream\<close>
  "handleSubscribe E d =
     (let (ch, d1) = Subscribe E d;
          (status, d2) = Status E d1
      in ((d2, [OkResponse (StatusPayload status)]), ch))"

fun handleConn :: "Daemon \<Rightarrow> (env \<times> line) list \<Rightarrow> Daemon \<times> Response list \<times> nat option" where
  "handleConn d [] = (d, [], None)"
| "handleConn d ((E, BadLine e) # rest) =
     (case handleConn d rest of
        (d', out, ch) \<Rightarrow> (d', ErrResponse (''invalid json: '' @ e) # out, ch))"
| "handleConn d ((E, ReqLine req) # rest) =
     (if req_Method req = ''subscribe'' then
        (case handleSubscribe E d of ((d', out), ch) \<Rightarrow> (d', out, Some ch))
      else
        (case Handle E d req of
           (None, d1) \<Rightarrow> (d1, [], None)
         | (Some resp, d1) \<Rightarrow>
            if \<not> write_ok E then (d1, [], None)
            else (case handleConn d1 rest of (d', out, ch) \<Rightarrow> (d', resp # out, ch))))"

section \<open>Reachable states\<close>

text \<open>
  The states the daemon can be in: it starts from \<open>New\<close>, and every operation, every
  background task and every request served leads from a state to the next, whatever
  the environment answers.
\<close>

inductive reachable :: "Daemon \<Rightarrow> bool" where
  r_New: "reachable (New E c cfg0)"
| r_Run: "reachable d \<Longrightarrow> reachable (snd (Run E d params))"
| r_Freeze: "reachable d \<Longrightarrow> reachable (snd (Freeze E d name))"
| r_Thaw: "reachable d \<Longrightarrow> reachable (snd (Thaw E d name))"
| r_Kill: "reachable d \<Longrightarrow> reachable (snd (Kill E d name))"
| r_Migrate: "reachable d \<Longrightarrow> reachable (snd (Migrate E d mparams))"
| r_Status: "reachable d \<Longrightarrow> reachable (snd (Status E d))"
| r_Logs: "reachable d \<Longrightarrow> reachable (snd (Logs E d name lines))"
| r_Handle: "reachable d \<Longrightarrow> reachable (snd (Handle E d req))"
| r_Subscribe: "reachable d \<Longrightarrow> reachable (snd (Subscribe E d))"
| r_Unsubscribe: "reachable d \<Longrightarrow> reachable (Unsubscribe d ch)"
| r_Shutdown: "reachable d \<Longrightarrow> reachable (Shutdown E d)"
| r_monitor: "reachable d \<Longrightarrow> reachable (monitorProcess E d name err)"
| r_sample: "reachable d \<Longrightarrow> reachable (sampleMem E d name)"
| r_conn: "reachable d \<Longrightarrow> reachable (fst (handleConn d ls))"
| r_recv: "reachable d \<Longrightarrow> reachable (recvEvent d ch)"

code_pred reachable .

section \<open>The order of states in the specification\<close>

definition spec_rank :: "ProcessState \<Rightarrow> nat" where
  \<comment> \<open>the position of a state in the order Active, Frozen, Hibernated, Dead\<close>
  "spec_rank s =
     (if s = StateActive then 0 else if s = StateFrozen then 1
      else if s = StateHibernated then 2 else 3)"

section \<open>Errors about the state of an entry\<close>

fun wrong_state :: "error \<Rightarrow> bool" where
  \<comment> \<open>an error that rejects the operation for the state the entry is in, also when
      another error wraps it\<close>
  "wrong_state (NotActive n s) = True"
| "wrong_state (NotFrozen n s) = True"
| "wrong_state (Wrapped pre e) = wrong_state e"
| "wrong_state _ = False"

section \<open>Concrete environments and daemons\<close>

text \<open>
  An environment in which every external call succeeds, one in which the tool fails on
  a chosen action, and small daemons to run the operations on.
\<close>

definition okEnv :: env where
  "okEnv = \<lparr>run_tool = (\<lambda>b args. (2000000, [], None)),
            gpu_mem = (\<lambda>pid. 512),
            now_started = 10, now_emit = 11,
            create_file = (\<lambda>path. None),
            start_cmd = (\<lambda>argv dir vars.
                          Inr (if argv = [''sleep'', ''60''] then 4343 else 4242)),
            environ = [], getuid = 1000, site_packages = [],
            read_file = (\<lambda>path. Inr []),
            query_gpus = [], host_mem = (0, 0), driver_version = [],
            age_of = (\<lambda>t. []), range_keys = (\<lambda>ks. ks), sort_choice = (\<lambda>xs. xs),
            new_chan = 0, write_ok = True,
            fmt_q = (\<lambda>s. [CHR 0x22] @ s @ [CHR 0x22]),
            trim_space = (\<lambda>s. s),
            path_join = (\<lambda>a b. a @ ''/'' @ b),
            unmarshal_run = (\<lambda>s. Inl ''unexpected end of JSON input''),
            unmarshal_name = (\<lambda>s. Inr \<lparr>np_Name = s\<rparr>),
            unmarshal_migrate = (\<lambda>s. Inr \<lparr>mig_Name = s, mig_GPU = 1\<rparr>),
            unmarshal_logs = (\<lambda>s. Inr \<lparr>lp_Name = s, lp_Lines = 0, lp_Follow = False\<rparr>)\<rparr>"

definition toolFails :: "string \<Rightarrow> env" where
  "toolFails action =
     okEnv\<lparr>run_tool := (\<lambda>b args.
        case args of
          _ # a # _ \<Rightarrow> if a = action then (1000000, ''failed'', Some ''exit status 1'')
                       else (2000000, [], None)
        | _ \<Rightarrow> (2000000, [], None))\<rparr>"

definition cudaOn :: CUDA where
  "cudaOn = \<lparr>Binary = ''/usr/bin/cuda-checkpoint'', Available = True\<rparr>"

definition cudaOff :: CUDA where
  "cudaOff = \<lparr>Binary = [], Available = False\<rparr>"

definition runA :: RunParams where
  "runA = \<lparr>run_Name = ''a'', run_Cmd = [''sleep'', ''3600''], run_Dir = [], run_GPU = 0\<rparr>"

definition procA :: "ProcessState \<Rightarrow> Proc" where
  "procA s = \<lparr>Name = ''a'', PID = 4242, State = s, GPU = 0, MemMB = 0, Started = 10,
              Cmd = [''sleep'', ''3600''], LogPath = ''/tmp/l/a.log'',
              logFile = Some ''/tmp/l/a.log''\<rparr>"

definition daemonWith :: "CUDA \<Rightarrow> (string \<times> Proc) list \<Rightarrow> Daemon" where
  "daemonWith c ps = \<lparr>procs = ps, events = [], metrics = zeroMetrics, cuda = c,
     cfg = \<lparr>RAMBudgetMB = 8192, LogDir = ''/tmp/l''\<rparr>, subs = [],
     freezeTotalMs = 0, thawTotalMs = 0, io = []\<rparr>"

definition runB :: RunParams where
  "runB = \<lparr>run_Name = ''b'', run_Cmd = [''sleep'', ''60''], run_Dir = [], run_GPU = 1\<rparr>"

definition twoProcs :: Daemon where
  \<comment> \<open>two processes started, the first then frozen\<close>
  "twoProcs =
     snd (Freeze okEnv
       (snd (Run okEnv
         (snd (Run okEnv (New okEnv cudaOn \<lparr>RAMBudgetMB = 8192, LogDir = ''/tmp/l''\<rparr>) runA))
         runB)) ''a'')"

section \<open>The states an entry is found in\<close>

definition ok_state :: "ProcessState \<Rightarrow> bool" where
  "ok_state s = (s = StateActive \<or> s = StateFrozen \<or> s = StateDead)"

definition added_ok :: "(string \<times> Proc) set \<Rightarrow> (string \<times> Proc) list \<Rightarrow> bool" where
  \<comment> \<open>every pair of the list is one of \<open>S\<close> or holds an entry in one of the three states\<close>
  "added_ok S al = (\<forall>x \<in> set al. x \<in> S \<or> ok_state (State (snd x)))"

definition known_states :: "Daemon \<Rightarrow> bool" where
  "known_states d = (\<forall>x \<in> set (procs d). ok_state (State (snd x)))"

section \<open>The second copy of the daemon: the disk tier\<close>

text \<open>
  The sources hold a second copy of package \<open>daemon\<close>, and of package \<open>checkpoint\<close> with
  an adapter for the process-tree tool \<open>criu\<close>; the copy of \<open>daemon\<close> follows the
  installer script \<open>install.sh\<close>. In this copy an entry has a frozen-at
  time and a snapshot directory, frozen snapshots are evicted to disk under memory
  pressure, and \<open>Hibernate\<close> and \<open>Fork\<close> exist. Its definitions carry the suffix \<open>2\<close>
  where the first copy has the name already; the adapter for \<open>cuda-checkpoint\<close> is the
  same in both copies and is shared.
\<close>

record CRIUtool =
  cr_Binary :: string
  cr_Available :: bool

record Proc2 = Proc +
  FrozenAt :: instant
  CRIUDir :: string

record Config2 =
  c2_RAMBudgetMB :: int64
  c2_DiskBudgetMB :: int64
  c2_DiskDir :: string
  c2_LogDir :: string

record ForkParams =
  fk_Name :: string
  fk_Copies :: int64
  fk_GPUs :: "int64 list"

record ForkResult =
  fo_Source :: string
  fo_Copies :: "string list"

record Daemon2 =
  procs2 :: "(string \<times> Proc2) list"
  events2 :: "Event list"
  metrics2 :: Metrics
  cuda2 :: CUDA
  criu2 :: CRIUtool
  cfg2 :: Config2
  subs2 :: "(nat \<times> Event list) list"
  freezeTotalMs2 :: int64
  thawTotalMs2 :: int64
  io2 :: "syscall list"

text \<open>
  What the second copy reads from outside, beyond \<open>env\<close>:
  \<^item> \<open>now_frozen\<close>: \<open>time.Now()\<close> as read by \<open>Freeze\<close> for the frozen-at time;
  \<^item> \<open>mkdir_all\<close>: \<open>os.MkdirAll\<close>;
  \<^item> \<open>criu_restore_run i\<close>, \<open>pidfile_read i\<close>: the \<open>i\<close>-th run of \<open>criu restore\<close> in the
    operation and the read of the pid file it wrote (\<open>Fork\<close> restores the same
    directory once for each copy; the other callers restore once, \<open>i = 0\<close>);
  \<^item> \<open>atoi\<close>: \<open>strconv.Atoi\<close>; \<open>fork_started i\<close>: \<open>time.Now()\<close> for the \<open>i\<close>-th copy;
  \<^item> \<open>victim_choice\<close>: the library's choice in the \<open>sort.Slice\<close> of the eviction.
\<close>

record env2 = env +
  now_frozen :: instant
  mkdir_all :: "string \<Rightarrow> string option"
  criu_restore_run :: "nat \<Rightarrow> string \<Rightarrow> string list \<Rightarrow> Duration \<times> string \<times> string option"
  pidfile_read :: "nat \<Rightarrow> string \<Rightarrow> string + string"
  atoi :: "string \<Rightarrow> string + int64"
  fork_started :: "nat \<Rightarrow> instant"
  victim_choice :: "(string \<times> Proc2) list \<Rightarrow> (string \<times> Proc2) list"

definition base :: "env2 \<Rightarrow> env" where
  \<comment> \<open>the part of the environment that the shared adapter reads\<close>
  "base E = env.truncate E"

text \<open>
  The errors of the second copy: those of the first (\<open>Plain\<close>), and one constructor for
  each further \<open>fmt.Errorf\<close>.
\<close>

datatype error2 =
    Plain error
  | Wrapped2 string error2
  | DumpNoCriu
  | RestoreNoCriu
  | ThawNoCriu
  | ForkNoCriu
  | HibernateNoCriu
  | CriuDumpFailure int64 string string
  | CriuRestoreFailure string string
  | NotFrozenOrHibernated string ProcessState
  | MustBeActiveOrFrozen string

definition em_dash :: string where
  \<comment> \<open>U+2014 in UTF-8\<close>
  "em_dash = [CHR 0xE2, CHR 0x80, CHR 0x94]"

fun Error2 :: "env2 \<Rightarrow> error2 \<Rightarrow> string" where
  "Error2 E (Plain e) = Error (base E) e"
| "Error2 E (Wrapped2 pre e) = pre @ '': '' @ Error2 E e"
| "Error2 E DumpNoCriu = ''criu not available (install: apt install criu)''"
| "Error2 E RestoreNoCriu = ''criu not available''"
| "Error2 E ThawNoCriu = ''criu not available '' @ em_dash @ '' can'' @ [CHR 0x27]
     @ ''t restore from disk''"
| "Error2 E ForkNoCriu = ''fork requires CRIU (install: apt install criu)''"
| "Error2 E HibernateNoCriu = ''hibernate requires CRIU (install: apt install criu)''"
| "Error2 E (CriuDumpFailure pid out e) =
     ''criu dump pid='' @ Itoa pid @ '': '' @ trim_space E out @ '' ('' @ e @ '')''"
| "Error2 E (CriuRestoreFailure out e) =
     ''criu restore: '' @ trim_space E out @ '' ('' @ e @ '')''"
| "Error2 E (NotFrozenOrHibernated n s) =
     ''process '' @ fmt_q E n @ '' is '' @ s @ '', not frozen/hibernated''"
| "Error2 E (MustBeActiveOrFrozen n) =
     ''process '' @ fmt_q E n @ '' must be active or frozen to hibernate''"

subsection \<open>Package checkpoint: the criu adapter\<close>

definition DumpDir :: "string \<Rightarrow> string \<Rightarrow> string" where
  "DumpDir baseDir name = baseDir @ ''/'' @ name"

definition CRIU_Dump :: "CRIUtool \<Rightarrow> env2 \<Rightarrow> int64 \<Rightarrow> string \<Rightarrow> syscall list
    \<Rightarrow> (Duration \<times> error2 option) \<times> syscall list" where
  "CRIU_Dump cr E pid dir tr =
     (if \<not> cr_Available cr then ((0, Some DumpNoCriu), tr)
      else
       (case mkdir_all E dir of
          Some e \<Rightarrow>
            ((0, Some (Wrapped2 ''creating dump dir'' (Plain (OSError e)))), tr @ [MkdirAll dir])
        | None \<Rightarrow>
           (let args = [''dump'', ''-t'', Itoa pid, ''-D'', dir, ''--shell-job'',
                        ''--tcp-established'', ''-v0''];
                (elapsed, out, err) = run_tool E (cr_Binary cr) args;
                tr1 = tr @ [MkdirAll dir, Exec (cr_Binary cr) args]
            in case err of
                 Some e \<Rightarrow> ((elapsed, Some (CriuDumpFailure pid out e)), tr1)
               | None \<Rightarrow> ((elapsed, None), tr1))))"

definition CRIU_Restore :: "CRIUtool \<Rightarrow> env2 \<Rightarrow> nat \<Rightarrow> string \<Rightarrow> syscall list
    \<Rightarrow> (int64 \<times> Duration \<times> error2 option) \<times> syscall list" where
  "CRIU_Restore cr E i dir tr =
     (if \<not> cr_Available cr then ((0, 0, Some RestoreNoCriu), tr)
      else
       (let pidFile = dir @ ''/restored.pid'';
            args = [''restore'', ''-D'', dir, ''--shell-job'', ''--tcp-established'', ''-d'',
                    ''--pidfile'', pidFile, ''-v0''];
            (elapsed, out, err) = criu_restore_run E i (cr_Binary cr) args;
            tr1 = tr @ [Exec (cr_Binary cr) args]
        in case err of
             Some e \<Rightarrow> ((0, elapsed, Some (CriuRestoreFailure out e)), tr1)
           | None \<Rightarrow>
              (case pidfile_read E i pidFile of
                 Inl e \<Rightarrow>
                   ((0, elapsed, Some (Wrapped2 ''reading restored pid'' (Plain (OSError e)))),
                    tr1 @ [ReadFile pidFile])
               | Inr pidBytes \<Rightarrow>
                  (case atoi E (trim_space E pidBytes) of
                     Inl e \<Rightarrow>
                       ((0, elapsed,
                         Some (Wrapped2 ''parsing restored pid'' (Plain (OSError e)))),
                        tr1 @ [ReadFile pidFile])
                   | Inr pid \<Rightarrow> ((pid, elapsed, None), tr1 @ [ReadFile pidFile])))))"

subsection \<open>Package daemon, second copy\<close>

definition New2 :: "env2 \<Rightarrow> CUDA \<Rightarrow> CRIUtool \<Rightarrow> Config2 \<Rightarrow> Daemon2" where
  "New2 E c cr cfg0 =
     (let cA = (if c2_LogDir cfg0 = [] then cfg0\<lparr>c2_LogDir := ''/tmp/gpusched/logs''\<rparr>
                  else cfg0);
          cB = (if c2_DiskDir cA = [] then cA\<lparr>c2_DiskDir := ''/tmp/gpusched/snapshots''\<rparr>
                  else cA);
          cC = (if c2_RAMBudgetMB cB = 0
                  then (let total = fst (host_mem E)
                        in if 0 <s total then cB\<lparr>c2_RAMBudgetMB := quo (total * 80) 100\<rparr>
                           else cB\<lparr>c2_RAMBudgetMB := 64 * 1024\<rparr>)
                  else cB);
          cD = (if c2_DiskBudgetMB cC = 0 then cC\<lparr>c2_DiskBudgetMB := 500 * 1024\<rparr>
                  else cC)
      in \<lparr>procs2 = [], events2 = [], metrics2 = zeroMetrics, cuda2 = c, criu2 = cr,
          cfg2 = cD, subs2 = [], freezeTotalMs2 = 0, thawTotalMs2 = 0,
          io2 = [MkdirAll (c2_LogDir cD), MkdirAll (c2_DiskDir cD)]\<rparr>)"

definition emit2 :: "env2 \<Rightarrow> Event \<Rightarrow> Daemon2 \<Rightarrow> Daemon2" where
  "emit2 E e d =
     (let e1 = e\<lparr>ev_Time := now_emit E\<rparr>;
          evs = events2 d @ [e1];
          evs1 = (if length evs > 1000 then drop (length evs - 500) evs else evs)
      in d\<lparr>events2 := evs1,
           subs2 := map (\<lambda>(ch, buf). if length buf < 64 then (ch, buf @ [e1]) else (ch, buf))
                      (subs2 d)\<rparr>)"

definition Run2 :: "env2 \<Rightarrow> Daemon2 \<Rightarrow> RunParams \<Rightarrow> (error2 + RunResult) \<times> Daemon2" where
  "Run2 E d params =
     (let name = run_Name params in
      if map_of (procs2 d) name \<noteq> None then (Inl (Plain (AlreadyExists name)), d)
      else if run_Cmd params = [] then (Inl (Plain EmptyCommand), d)
      else
       (let logPath = path_join E (c2_LogDir (cfg2 d)) (name @ ''.log'');
            io1 = io2 d @ [CreateFile logPath]
        in case create_file E logPath of
             Some e \<Rightarrow> (Inl (Wrapped2 ''creating log'' (Plain (OSError e))), d\<lparr>io2 := io1\<rparr>)
           | None \<Rightarrow>
              (let env0 = environ E @ [''GPUSCHED_MANAGED=1'',
                            ''CUDA_VISIBLE_DEVICES='' @ Itoa (run_GPU params)];
                   env1 = (if getuid E = 0 then appendPythonPath (base E) env0 else env0);
                   io3 = io1 @ [StartCmd (run_Cmd params) (run_Dir params) env1]
               in case start_cmd E (run_Cmd params) (run_Dir params) env1 of
                    Inl e \<Rightarrow>
                      (Inl (Wrapped2 ''starting process'' (Plain (OSError e))),
                       d\<lparr>io2 := io3 @ [CloseFile logPath]\<rparr>)
                  | Inr pid \<Rightarrow>
                     (let p = \<lparr>Name = name, PID = pid, State = StateActive,
                               GPU = run_GPU params, MemMB = 0, Started = now_started E,
                               Cmd = run_Cmd params, LogPath = logPath,
                               logFile = Some logPath, FrozenAt = 0, CRIUDir = []\<rparr>;
                          d1 = d\<lparr>procs2 := AList.update name p (procs2 d),
                                 metrics2 := (metrics2 d)
                                   \<lparr>ColdStarts := ColdStarts (metrics2 d) + 1\<rparr>,
                                 io2 := io3\<rparr>;
                          d2 = emit2 E (event ''run'' name
                                 (''pid='' @ Itoa pid @ '' gpu='' @ Itoa (run_GPU params)
                                    @ '' cmd='' @ fmt_v (run_Cmd params)) 0) d1
                      in (Inr \<lparr>rr_Name = name, rr_PID = pid\<rparr>, d2)))))"

definition refreshMem2 :: "env2 \<Rightarrow> Proc2 \<Rightarrow> Proc2" where
  "refreshMem2 E p = (let mem = gpu_mem E (PID p) in if 0 <s mem then p\<lparr>MemMB := mem\<rparr> else p)"

definition closeLog2 :: "Proc2 \<Rightarrow> syscall list" where
  "closeLog2 p = (case logFile p of Some f \<Rightarrow> [CloseFile f] | None \<Rightarrow> [])"

fun evict_loop :: "env2 \<Rightarrow> string list \<Rightarrow> int64 \<Rightarrow> int64 \<Rightarrow> Daemon2 \<Rightarrow> Daemon2" where
  \<comment> \<open>the loop of \<open>ensureRAMBudget\<close> over the victims, oldest first; \<open>freeRAM\<close> grows by
      what each eviction frees\<close>
  "evict_loop E [] freeRAM sizeMB d = d"
| "evict_loop E (k # ks) freeRAM sizeMB d =
     (if 4096 <s freeRAM - sizeMB then d
      else
       (case map_of (procs2 d) k of
          None \<Rightarrow> evict_loop E ks freeRAM sizeMB d
        | Some victim \<Rightarrow>
           if cr_Available (criu2 d) then
             (let io1 = io2 d @ [Signal (PID victim) SIGCONT];
                  dumpDir = DumpDir (c2_DiskDir (cfg2 d)) (Name victim);
                  ((_, err), io3) = CRIU_Dump (criu2 d) E (PID victim) dumpDir io1
              in case err of
                   Some e \<Rightarrow> evict_loop E ks freeRAM sizeMB (d\<lparr>io2 := io3\<rparr>)
                 | None \<Rightarrow>
                    (let v1 = victim\<lparr>State := StateHibernated, CRIUDir := dumpDir\<rparr>;
                         d1 = d\<lparr>procs2 := AList.update k v1 (procs2 d),
                                metrics2 := (metrics2 d)
                                  \<lparr>Hibernations := Hibernations (metrics2 d) + 1\<rparr>,
                                io2 := io3\<rparr>;
                         d2 = emit2 E (event ''evict'' (Name victim)
                                (''RAM '' @ arrow_to @ '' disk ('' @ Itoa (MemMB victim)
                                   @ '' MB)'') 0) d1
                     in evict_loop E ks (freeRAM + MemMB victim) sizeMB d2))
           else
             (let v1 = victim\<lparr>State := StateDead\<rparr>;
                  d1 = d\<lparr>procs2 := AList.update k v1 (procs2 d),
                         io2 := io2 d @ [Signal (PID victim) SIGCONT,
                                         Signal (PID victim) SIGKILL]\<rparr>;
                  d2 = emit2 E (event ''evict-kill'' (Name victim)
                         (''killed '' @ em_dash @ '' no CRIU ('' @ Itoa (MemMB victim)
                            @ '' MB freed)'') 0) d1
              in evict_loop E ks (freeRAM + MemMB victim) sizeMB d2)))"

definition frozenEntries :: "env2 \<Rightarrow> Daemon2 \<Rightarrow> (string \<times> Proc2) list" where
  \<comment> \<open>the Frozen entries, in the order the \<open>range\<close> over the map finds them\<close>
  "frozenEntries E d =
     List.map_filter
       (\<lambda>k. case map_of (procs2 d) k of
               Some p \<Rightarrow> if State p = StateFrozen then Some (k, p) else None
             | None \<Rightarrow> None)
       (range_keys E (map fst (procs2 d)))"

definition ensureRAMBudget :: "env2 \<Rightarrow> Daemon2 \<Rightarrow> int64 \<Rightarrow> Daemon2" where
  \<comment> \<open>the error it returns is always nil\<close>
  "ensureRAMBudget E d sizeMB =
     (let freeRAM = snd (host_mem E)
      in if 4096 <s freeRAM - sizeMB then d
         else
          (let frozen = sort_Slice (victim_choice E)
                          (\<lambda>a b. FrozenAt (snd a) < FrozenAt (snd b)) (frozenEntries E d)
           in evict_loop E (map fst frozen) freeRAM sizeMB d))"

definition Freeze2 :: "env2 \<Rightarrow> Daemon2 \<Rightarrow> string \<Rightarrow> (error2 + FreezeResult) \<times> Daemon2" where
  "Freeze2 E d name =
     (case map_of (procs2 d) name of
        None \<Rightarrow> (Inl (Plain (NotFound name)), d)
      | Some p \<Rightarrow>
         if State p \<noteq> StateActive then (Inl (Plain (NotActive name (State p))), d)
         else if \<not> Available (cuda2 d) then (Inl (Plain NotAvailable), d)
         else
          (let p1 = refreshMem2 E p;
               d1 = ensureRAMBudget E (d\<lparr>procs2 := AList.update name p1 (procs2 d)\<rparr>) (MemMB p1);
               ((dur, err), io1) = CUDA_Freeze (cuda2 d) (base E) (PID p1) (io2 d1)
           in case err of
                Some e \<Rightarrow> (Inl (Wrapped2 ''cuda freeze'' (Plain e)), d1\<lparr>io2 := io1\<rparr>)
              | None \<Rightarrow>
                 (let p2 = p1\<lparr>State := StateFrozen, FrozenAt := now_frozen E\<rparr>;
                      n = Freezes (metrics2 d1) + 1;
                      total = freezeTotalMs2 d1 + Milliseconds dur;
                      d2 = d1\<lparr>procs2 := AList.update name p2 (procs2 d1),
                             metrics2 := (metrics2 d1)\<lparr>Freezes := n\<rparr>,
                             freezeTotalMs2 := total,
                             io2 := io1 @ [Signal (PID p1) SIGSTOP]\<rparr>
                  in if n = 0 then (Inl (Plain DivideByZero), d2)
                     else
                      (let d3 = d2\<lparr>metrics2 := (metrics2 d2)\<lparr>AvgFreezeMs := quo total n\<rparr>\<rparr>;
                           d4 = emit2 E (event ''freeze'' name
                                  (arrow_to @ '' RAM ('' @ Itoa (MemMB p2) @ '' MB)'')
                                  (Milliseconds dur)) d3
                       in (Inr \<lparr>fr_Name = name, fr_DurationMs = Milliseconds dur,
                                fr_Tier = TierRAM, fr_MemMB = MemMB p2\<rparr>, d4)))))"

definition thawFromRAM :: "env2 \<Rightarrow> Daemon2 \<Rightarrow> string \<Rightarrow> Proc2
    \<Rightarrow> (error2 + ThawResult) \<times> Daemon2" where
  \<comment> \<open>\<open>k\<close> is the key under which the entry \<open>p\<close> is registered\<close>
  "thawFromRAM E d k p =
     (let io1 = io2 d @ [Signal (PID p) SIGCONT];
          ((dur, err), io3) = CUDA_Thaw (cuda2 d) (base E) (PID p) io1
      in case err of
           Some e \<Rightarrow>
             (Inl (Wrapped2 ''cuda thaw'' (Plain e)), d\<lparr>io2 := io3 @ [Signal (PID p) SIGSTOP]\<rparr>)
         | None \<Rightarrow>
            (let p1 = p\<lparr>State := StateActive\<rparr>;
                 n = Thaws (metrics2 d) + 1;
                 total = thawTotalMs2 d + Milliseconds dur;
                 d1 = d\<lparr>procs2 := AList.update k p1 (procs2 d),
                        metrics2 := (metrics2 d)\<lparr>Thaws := n\<rparr>,
                        thawTotalMs2 := total, io2 := io3\<rparr>
             in if n = 0 then (Inl (Plain DivideByZero), d1)
                else
                 (let d2 = d1\<lparr>metrics2 := (metrics2 d1)\<lparr>AvgThawMs := quo total n\<rparr>\<rparr>;
                      d3 = emit2 E (event ''thaw'' (Name p1)
                             (arrow_from @ '' RAM ('' @ Itoa (MemMB p1) @ '' MB)'')
                             (Milliseconds dur)) d2
                  in (Inr \<lparr>tr_Name = Name p1, tr_DurationMs = Milliseconds dur,
                           tr_FromTier = TierRAM, tr_MemMB = MemMB p1\<rparr>, d3))))"

definition thawFromDisk :: "env2 \<Rightarrow> Daemon2 \<Rightarrow> string \<Rightarrow> Proc2
    \<Rightarrow> (error2 + ThawResult) \<times> Daemon2" where
  "thawFromDisk E d k p =
     (if \<not> cr_Available (criu2 d) then (Inl ThawNoCriu, d)
      else
       (let ((newPID, criuDur, err), io1) = CRIU_Restore (criu2 d) E 0 (CRIUDir p) (io2 d)
        in case err of
             Some e \<Rightarrow> (Inl (Wrapped2 ''criu restore'' e), d\<lparr>io2 := io1\<rparr>)
           | None \<Rightarrow>
              (let ((cudaDur, err), io3) = CUDA_Thaw (cuda2 d) (base E) newPID io1
               in case err of
                    Some e \<Rightarrow>
                      (Inl (Wrapped2 ''cuda thaw after criu'' (Plain e)),
                       d\<lparr>io2 := io3 @ [Signal newPID SIGKILL]\<rparr>)
                  | None \<Rightarrow>
                     (let totalDur = criuDur + cudaDur;
                          p1 = p\<lparr>PID := newPID, State := StateActive, CRIUDir := []\<rparr>;
                          n = Thaws (metrics2 d) + 1;
                          total = thawTotalMs2 d + Milliseconds totalDur;
                          d1 = d\<lparr>procs2 := AList.update k p1 (procs2 d),
                                 metrics2 := (metrics2 d)\<lparr>Thaws := n\<rparr>,
                                 thawTotalMs2 := total, io2 := io3\<rparr>
                      in if n = 0 then (Inl (Plain DivideByZero), d1)
                         else
                          (let d2 = d1\<lparr>metrics2 := (metrics2 d1)
                                       \<lparr>AvgThawMs := quo total n\<rparr>\<rparr>;
                               d3 = emit2 E (event ''thaw'' (Name p1)
                                      (arrow_from @ '' disk (criu='' @ Itoa (Milliseconds criuDur)
                                         @ ''ms cuda='' @ Itoa (Milliseconds cudaDur) @ ''ms)'')
                                      (Milliseconds totalDur)) d2
                           in (Inr \<lparr>tr_Name = Name p1,
                                    tr_DurationMs = Milliseconds totalDur,
                                    tr_FromTier = TierDisk, tr_MemMB = MemMB p1\<rparr>, d3))))))"

definition Thaw2 :: "env2 \<Rightarrow> Daemon2 \<Rightarrow> string \<Rightarrow> (error2 + ThawResult) \<times> Daemon2" where
  "Thaw2 E d name =
     (case map_of (procs2 d) name of
        None \<Rightarrow> (Inl (Plain (NotFound name)), d)
      | Some p \<Rightarrow>
         if State p = StateFrozen then thawFromRAM E d name p
         else if State p = StateHibernated then thawFromDisk E d name p
         else (Inl (NotFrozenOrHibernated name (State p)), d))"

definition Kill2 :: "env2 \<Rightarrow> Daemon2 \<Rightarrow> string \<Rightarrow> error2 option \<times> Daemon2" where
  "Kill2 E d name =
     (case map_of (procs2 d) name of
        None \<Rightarrow> (Some (Plain (NotFound name)), d)
      | Some p \<Rightarrow>
         (let io1 = io2 d @
                (if State p = StateActive \<or> State p = StateFrozen
                 then (if State p = StateFrozen then [Signal (PID p) SIGCONT] else [])
                        @ [Signal (PID p) SIGTERM, KillAfter 3 (PID p) SIGKILL]
                 else if State p = StateHibernated then [RemoveAll (CRIUDir p)]
                 else []);
              p1 = p\<lparr>State := StateDead\<rparr>;
              d1 = d\<lparr>procs2 := AList.update name p1 (procs2 d), io2 := io1 @ closeLog2 p1\<rparr>;
              d2 = emit2 E (event ''kill'' name [] 0) d1
          in (None, d2\<lparr>procs2 := AList.delete name (procs2 d2)\<rparr>)))"

fun fork_loop :: "env2 \<Rightarrow> ForkParams \<Rightarrow> Proc2 \<Rightarrow> string \<Rightarrow> nat list \<Rightarrow> Daemon2 \<Rightarrow> string list
    \<Rightarrow> Daemon2 \<times> string list" where
  \<comment> \<open>the loop of \<open>Fork\<close> over the copy numbers; \<open>p\<close> is the source entry\<close>
  "fork_loop E params p dumpDir [] d copies = (d, copies)"
| "fork_loop E params p dumpDir (i # is) d copies =
     (let copyName = fk_Name params @ ''-'' @ Itoa (of_nat i);
          targetGPU = (if i - 1 < length (fk_GPUs params) then fk_GPUs params ! (i - 1)
                       else GPU p);
          ((newPID, _, err), io1) = CRIU_Restore (criu2 d) E i dumpDir (io2 d)
      in case err of
           Some e \<Rightarrow> fork_loop E params p dumpDir is (d\<lparr>io2 := io1\<rparr>) copies
         | None \<Rightarrow>
            (let ((_, err), io3) =
                   (if targetGPU \<noteq> GPU p
                    then RestoreOnDevice (cuda2 d) (base E) newPID targetGPU io1
                    else CUDA_Thaw (cuda2 d) (base E) newPID io1)
             in case err of
                  Some e \<Rightarrow>
                    fork_loop E params p dumpDir is
                      (d\<lparr>io2 := io3 @ [Signal newPID SIGKILL]\<rparr>) copies
                | None \<Rightarrow>
                   (let logPath = path_join E (c2_LogDir (cfg2 d)) (copyName @ ''.log'');
                        q = \<lparr>Name = copyName, PID = newPID, State = StateActive,
                              GPU = targetGPU, MemMB = MemMB p, Started = fork_started E i,
                              Cmd = [], LogPath = logPath,
                              logFile = (case create_file E logPath of
                                           None \<Rightarrow> Some logPath | Some e \<Rightarrow> None),
                              FrozenAt = 0, CRIUDir = []\<rparr>
                    in fork_loop E params p dumpDir is
                         (d\<lparr>procs2 := AList.update copyName q (procs2 d),
                            io2 := io3 @ [CreateFile logPath]\<rparr>)
                         (copies @ [copyName]))))"

definition Fork :: "env2 \<Rightarrow> Daemon2 \<Rightarrow> ForkParams \<Rightarrow> (error2 + ForkResult) \<times> Daemon2" where
  \<comment> \<open>the source entry is read again after the freeze, as through the pointer\<close>
  "Fork E d params =
     (if \<not> cr_Available (criu2 d) then (Inl ForkNoCriu, d)
      else
       (case map_of (procs2 d) (fk_Name params) of
          None \<Rightarrow> (Inl (Plain (NotFound (fk_Name params))), d)
        | Some p0 \<Rightarrow>
           (let (ferr, d1) =
                  (if State p0 = StateActive
                   then (case Freeze2 E d (fk_Name params) of
                           (Inl e, d') \<Rightarrow> (Some e, d') | (Inr r, d') \<Rightarrow> (None, d'))
                   else (None, d))
            in case ferr of
                 Some e \<Rightarrow> (Inl (Wrapped2 ''freezing source'' e), d1)
               | None \<Rightarrow>
                  (let p = (case map_of (procs2 d1) (fk_Name params) of
                              Some p' \<Rightarrow> p' | None \<Rightarrow> p0);
                       dumpDir = DumpDir (c2_DiskDir (cfg2 d1)) (fk_Name params @ ''-fork-source'');
                       ((_, derr), io1) = CRIU_Dump (criu2 d1) E (PID p) dumpDir (io2 d1)
                   in case derr of
                        Some e \<Rightarrow> (Inl (Wrapped2 ''criu dump for fork'' e), d1\<lparr>io2 := io1\<rparr>)
                      | None \<Rightarrow>
                         (let (d2, copies) =
                                fork_loop E params p dumpDir
                                  [1 ..< Suc (nat (sint (fk_Copies params)))]
                                  (d1\<lparr>io2 := io1\<rparr>) [];
                              d3 = d2\<lparr>metrics2 := (metrics2 d2)
                                     \<lparr>Forks := Forks (metrics2 d2) + 1\<rparr>\<rparr>;
                              d4 = emit2 E (event ''fork'' (fk_Name params)
                                     (Itoa (of_nat (length copies)) @ '' copies: ''
                                        @ fmt_v copies) 0) d3
                          in (Inr \<lparr>fo_Source = fk_Name params, fo_Copies = copies\<rparr>, d4))))))"

definition Migrate2 :: "env2 \<Rightarrow> Daemon2 \<Rightarrow> MigrateParams
    \<Rightarrow> (error2 + MigrateResult) \<times> Daemon2" where
  "Migrate2 E d params =
     (let name = mig_Name params in
      case map_of (procs2 d) name of
        None \<Rightarrow> (Inl (Plain (NotFound name)), d)
      | Some p \<Rightarrow>
         if \<not> Available (cuda2 d) then (Inl (Plain NotAvailable), d)
         else
          (let fromGPU = GPU p;
               p1 = (if State p = StateActive then refreshMem2 E p else p);
               d1 = (if State p = StateActive
                     then d\<lparr>procs2 := AList.update name p1 (procs2 d)\<rparr> else d);
               ((_, ferr), io1) =
                  (if State p = StateActive
                   then CUDA_Freeze (cuda2 d) (base E) (PID p1) (io2 d)
                   else ((0, None), io2 d))
           in case ferr of
                Some e \<Rightarrow> (Inl (Wrapped2 ''freeze for migrate'' (Plain e)), d1\<lparr>io2 := io1\<rparr>)
              | None \<Rightarrow>
                 (let io3 = io1 @ (if State p = StateActive then [Signal (PID p1) SIGSTOP] else [])
                              @ [Signal (PID p1) SIGCONT];
                      ((dur, rerr), io4) =
                         RestoreOnDevice (cuda2 d) (base E) (PID p1) (mig_GPU params) io3
                  in case rerr of
                       Some e \<Rightarrow>
                         (Inl (Wrapped2 (''restore on gpu '' @ Itoa (mig_GPU params)) (Plain e)),
                          d1\<lparr>io2 := io4\<rparr>)
                     | None \<Rightarrow>
                        (let ((_, uerr), io5) = Unlock (cuda2 d) (base E) (PID p1) io4
                         in case uerr of
                              Some e \<Rightarrow>
                                (Inl (Wrapped2 ''unlock after migrate'' (Plain e)),
                                 d1\<lparr>io2 := io5\<rparr>)
                            | None \<Rightarrow>
                               (let p2 = p1\<lparr>State := StateActive, GPU := mig_GPU params\<rparr>;
                                    d2 = d1\<lparr>procs2 := AList.update name p2 (procs2 d1),
                                           metrics2 := (metrics2 d)
                                             \<lparr>Migrations := Migrations (metrics2 d) + 1\<rparr>,
                                           io2 := io5\<rparr>;
                                    d3 = emit2 E (event ''migrate'' name
                                           (''GPU '' @ Itoa fromGPU @ '' '' @ arrow_to @ '' GPU ''
                                              @ Itoa (mig_GPU params))
                                           (Milliseconds dur)) d2
                                in (Inr \<lparr>mr_Name = name, mr_FromGPU = fromGPU,
                                         mr_ToGPU = mig_GPU params\<rparr>, d3))))))"

definition Hibernate :: "env2 \<Rightarrow> Daemon2 \<Rightarrow> string \<Rightarrow> error2 option \<times> Daemon2" where
  "Hibernate E d name =
     (if \<not> cr_Available (criu2 d) then (Some HibernateNoCriu, d)
      else
       (case map_of (procs2 d) name of
          None \<Rightarrow> (Some (Plain (NotFound name)), d)
        | Some p \<Rightarrow>
           (let p1 = (if State p = StateActive then refreshMem2 E p else p);
                d1 = (if State p = StateActive
                      then d\<lparr>procs2 := AList.update name p1 (procs2 d)\<rparr> else d);
                ((_, ferr), io1) =
                   (if State p = StateActive
                    then CUDA_Freeze (cuda2 d) (base E) (PID p1) (io2 d)
                    else ((0, None), io2 d))
            in case ferr of
                 Some e \<Rightarrow> (Some (Wrapped2 ''freeze for hibernate'' (Plain e)), d1\<lparr>io2 := io1\<rparr>)
               | None \<Rightarrow>
                  (let p2 = (if State p = StateActive then p1\<lparr>State := StateFrozen\<rparr> else p1);
                       d2 = (if State p = StateActive
                             then d1\<lparr>procs2 := AList.update name p2 (procs2 d1),
                                    io2 := io1 @ [Signal (PID p1) SIGSTOP]\<rparr>
                             else d1)
                   in if State p2 \<noteq> StateFrozen
                      then (Some (MustBeActiveOrFrozen name), d2)
                      else
                       (let io3 = io2 d2 @ [Signal (PID p2) SIGCONT];
                            dumpDir = DumpDir (c2_DiskDir (cfg2 d2)) name;
                            ((dur, derr), io4) = CRIU_Dump (criu2 d2) E (PID p2) dumpDir io3
                        in case derr of
                             Some e \<Rightarrow> (Some (Wrapped2 ''criu dump'' e), d2\<lparr>io2 := io4\<rparr>)
                           | None \<Rightarrow>
                              (let p3 = p2\<lparr>State := StateHibernated, CRIUDir := dumpDir\<rparr>;
                                   d3 = d2\<lparr>procs2 := AList.update name p3 (procs2 d2),
                                          metrics2 := (metrics2 d2)
                                            \<lparr>Hibernations := Hibernations (metrics2 d2) + 1\<rparr>,
                                          io2 := io4\<rparr>;
                                   d4 = emit2 E (event ''hibernate'' name
                                          (arrow_to @ '' disk '' @ dumpDir @ '' (''
                                             @ Itoa (MemMB p3) @ '' MB)'')
                                          (Milliseconds dur)) d3
                               in (None, d4)))))))"

definition order2 :: "(ProcessState \<times> int64) list" where
  \<comment> \<open>the map literal inside the comparison function of the second copy's \<open>Status\<close>\<close>
  "order2 = [(StateActive, 0), (StateFrozen, 1), (StateHibernated, 2), (StateDead, 3)]"

definition order_of2 :: "ProcessState \<Rightarrow> int64" where
  "order_of2 s = (case map_of order2 s of Some v \<Rightarrow> v | None \<Rightarrow> 0)"

definition less_state2 :: "ProcessInfo \<Rightarrow> ProcessInfo \<Rightarrow> bool" where
  "less_state2 a b = (order_of2 (pi_State a) <s order_of2 (pi_State b))"

fun Status2_loop :: "env2 \<Rightarrow> string list \<Rightarrow> Daemon2 \<Rightarrow> ProcessInfo list \<Rightarrow> int64 \<Rightarrow> int64
    \<Rightarrow> Daemon2 \<times> ProcessInfo list \<times> int64 \<times> int64" where
  "Status2_loop E [] d infos snapshotsMB diskMB = (d, infos, snapshotsMB, diskMB)"
| "Status2_loop E (k # ks) d infos snapshotsMB diskMB =
     (case map_of (procs2 d) k of
        None \<Rightarrow> Status2_loop E ks d infos snapshotsMB diskMB
      | Some p \<Rightarrow>
         (let p1 = (if State p = StateActive then refreshMem2 E p else p);
              d1 = (if State p = StateActive
                    then d\<lparr>procs2 := AList.update k p1 (procs2 d)\<rparr> else d);
              tier = (if State p1 = StateFrozen then TierRAM
                      else if State p1 = StateHibernated then TierDisk else TierGPU);
              snapshotsMB1 = (if State p1 = StateFrozen then snapshotsMB + MemMB p1
                              else snapshotsMB);
              diskMB1 = (if State p1 = StateHibernated then diskMB + MemMB p1 else diskMB);
              info = \<lparr>pi_Name = Name p1, pi_PID = PID p1, pi_State = State p1,
                       pi_GPU = GPU p1, pi_MemMB = MemMB p1, pi_Age = age_of E (Started p1),
                       pi_Started = Started p1, pi_Tier = tier\<rparr>
          in Status2_loop E ks d1 (infos @ [info]) snapshotsMB1 diskMB1))"

definition Status2 :: "env2 \<Rightarrow> Daemon2 \<Rightarrow> StatusResult \<times> Daemon2" where
  "Status2 E d =
     (let (d1, infos, snapshotsMB, diskMB) =
            Status2_loop E (range_keys E (map fst (procs2 d))) d [] 0 0;
          sorted_infos = sort_Slice (sort_choice E) less_state2 infos;
          recentEvents = (if length (events2 d1) > 20
                          then drop (length (events2 d1) - 20) (events2 d1) else events2 d1)
      in (\<lparr>sr_GPUs = query_gpus E, sr_Processes = sorted_infos,
           sr_Memory = \<lparr>HostRAMTotalMB = fst (host_mem E), HostRAMFreeMB = snd (host_mem E),
                         HostRAMBudgetMB = c2_RAMBudgetMB (cfg2 d1), SnapshotsMB = snapshotsMB,
                         DiskUsedMB = diskMB, DiskBudgetMB = c2_DiskBudgetMB (cfg2 d1)\<rparr>,
           sr_Metrics = metrics2 d1, sr_Events = recentEvents,
           sr_Caps = \<lparr>CUDACheckpoint = Available (cuda2 d1),
                       CRIU = cr_Available (criu2 d1),
                       DriverVersion = driver_version E\<rparr>\<rparr>, d1))"

definition Logs2 :: "env2 \<Rightarrow> Daemon2 \<Rightarrow> string \<Rightarrow> int64 \<Rightarrow> (error2 + LogsResult) \<times> Daemon2" where
  "Logs2 E d name lines =
     (case map_of (procs2 d) name of
        None \<Rightarrow> (Inl (Plain (NotFound name)), d)
      | Some p \<Rightarrow>
         (let d1 = d\<lparr>io2 := io2 d @ [ReadFile (LogPath p)]\<rparr>
          in case read_file E (LogPath p) of
               Inl e \<Rightarrow> (Inl (Wrapped2 ''reading logs'' (Plain (OSError e))), d1)
             | Inr data \<Rightarrow>
                (let allLines = splitLines data;
                     n = length allLines
                 in (Inr \<lparr>lr_Lines =
                            (if 0 <s lines \<and> sint lines < int n
                             then drop (n - nat (sint lines)) allLines else allLines)\<rparr>,
                     d1))))"

definition Subscribe2 :: "env2 \<Rightarrow> Daemon2 \<Rightarrow> nat \<times> Daemon2" where
  "Subscribe2 E d = (new_chan E, d\<lparr>subs2 := subs2 d @ [(new_chan E, [])]\<rparr>)"

definition Unsubscribe2 :: "Daemon2 \<Rightarrow> nat \<Rightarrow> Daemon2" where
  "Unsubscribe2 d ch = d\<lparr>subs2 := removeChan ch (subs2 d)\<rparr>"

definition recvEvent2 :: "Daemon2 \<Rightarrow> nat \<Rightarrow> Daemon2" where
  "recvEvent2 d ch =
     d\<lparr>subs2 := map (\<lambda>(c, buf). if c = ch then (c, tl buf) else (c, buf)) (subs2 d)\<rparr>"

fun Shutdown2_loop :: "string list \<Rightarrow> Daemon2 \<Rightarrow> Daemon2" where
  "Shutdown2_loop [] d = d"
| "Shutdown2_loop (k # ks) d =
     (case map_of (procs2 d) k of
        None \<Rightarrow> Shutdown2_loop ks d
      | Some p \<Rightarrow>
         Shutdown2_loop ks
           (d\<lparr>io2 := io2 d
                @ (if State p = StateActive then [Signal (PID p) SIGTERM]
                   else if State p = StateFrozen
                   then [Signal (PID p) SIGCONT, Signal (PID p) SIGTERM] else [])
                @ closeLog2 p\<rparr>))"

definition Shutdown2 :: "env2 \<Rightarrow> Daemon2 \<Rightarrow> Daemon2" where
  "Shutdown2 E d = (Shutdown2_loop (range_keys E (map fst (procs2 d))) d)\<lparr>subs2 := []\<rparr>"

definition monitorProcess2 :: "env2 \<Rightarrow> Daemon2 \<Rightarrow> string \<Rightarrow> string option \<Rightarrow> Daemon2" where
  "monitorProcess2 E d name err =
     (case map_of (procs2 d) name of
        None \<Rightarrow> d
      | Some p \<Rightarrow>
         if State p = StateDead \<or> State p = StateHibernated then d
         else
          (let detail = (case err of Some e \<Rightarrow> e | None \<Rightarrow> ''exited'');
               p1 = p\<lparr>State := StateDead\<rparr>
           in emit2 E (event ''exit'' name detail 0)
                (d\<lparr>procs2 := AList.update name p1 (procs2 d), io2 := io2 d @ closeLog2 p1\<rparr>)))"

definition monitorPID :: "env2 \<Rightarrow> Daemon2 \<Rightarrow> string \<Rightarrow> int64 \<Rightarrow> Daemon2" where
  \<comment> \<open>the part of the watcher that runs once the probe of \<open>pid\<close> has failed\<close>
  "monitorPID E d name pid =
     (case map_of (procs2 d) name of
        None \<Rightarrow> d
      | Some p \<Rightarrow>
         if PID p = pid \<and> State p \<noteq> StateDead \<and> State p \<noteq> StateHibernated
         then emit2 E (event ''exit'' name ''process gone'' 0)
                (d\<lparr>procs2 := AList.update name (p\<lparr>State := StateDead\<rparr>) (procs2 d)\<rparr>)
         else d)"

definition sampleMem2 :: "env2 \<Rightarrow> Daemon2 \<Rightarrow> string \<Rightarrow> Daemon2" where
  "sampleMem2 E d name =
     (case map_of (procs2 d) name of
        None \<Rightarrow> d
      | Some p \<Rightarrow>
         if State p \<noteq> StateActive then d
         else d\<lparr>procs2 := AList.update name (refreshMem2 E p) (procs2 d)\<rparr>)"

definition countRequest2 :: "Daemon2 \<Rightarrow> Daemon2" where
  \<comment> \<open>the first statement of \<open>Handle\<close>; the router then runs one of the operations\<close>
  "countRequest2 d = d\<lparr>metrics2 := (metrics2 d)\<lparr>Requests := Requests (metrics2 d) + 1\<rparr>\<rparr>"

subsection \<open>The steps of the second copy\<close>

datatype op2 =
    ORun RunParams
  | OFreeze string
  | OThaw string
  | OKill string
  | OFork ForkParams
  | OMigrate MigrateParams
  | OHibernate string
  | OStatus
  | OLogs string int64
  | OExit string "string option"
  | OPidGone string int64
  | OSample string
  | OShutdown
  | OSubscribe
  | OUnsubscribe nat
  | ORecv nat
  | ORequest

fun applyOp2 :: "env2 \<Rightarrow> Daemon2 \<Rightarrow> op2 \<Rightarrow> Daemon2" where
  "applyOp2 E d (ORun params) = snd (Run2 E d params)"
| "applyOp2 E d (OFreeze n) = snd (Freeze2 E d n)"
| "applyOp2 E d (OThaw n) = snd (Thaw2 E d n)"
| "applyOp2 E d (OKill n) = snd (Kill2 E d n)"
| "applyOp2 E d (OFork params) = snd (Fork E d params)"
| "applyOp2 E d (OMigrate params) = snd (Migrate2 E d params)"
| "applyOp2 E d (OHibernate n) = snd (Hibernate E d n)"
| "applyOp2 E d OStatus = snd (Status2 E d)"
| "applyOp2 E d (OLogs n lines) = snd (Logs2 E d n lines)"
| "applyOp2 E d (OExit n err) = monitorProcess2 E d n err"
| "applyOp2 E d (OPidGone n pid) = monitorPID E d n pid"
| "applyOp2 E d (OSample n) = sampleMem2 E d n"
| "applyOp2 E d OShutdown = Shutdown2 E d"
| "applyOp2 E d OSubscribe = snd (Subscribe2 E d)"
| "applyOp2 E d (OUnsubscribe ch) = Unsubscribe2 d ch"
| "applyOp2 E d (ORecv ch) = recvEvent2 d ch"
| "applyOp2 E d ORequest = countRequest2 d"

inductive reachable2 :: "Daemon2 \<Rightarrow> bool" where
  r2_New: "reachable2 (New2 E c cr cfg0)"
| r2_step: "reachable2 d \<Longrightarrow> reachable2 (applyOp2 E d op)"

code_pred reachable2 .

subsection \<open>Predicates on the registry of the second copy\<close>

definition state4 :: "ProcessState \<Rightarrow> bool" where
  "state4 s = (s = StateActive \<or> s = StateFrozen \<or> s = StateHibernated \<or> s = StateDead)"


definition added_with :: "(Proc2 \<Rightarrow> bool) \<Rightarrow> (string \<times> Proc2) set \<Rightarrow> (string \<times> Proc2) list \<Rightarrow> bool"
  where
  \<comment> \<open>every pair of the list is one of \<open>S\<close> or holds an entry with \<open>P\<close>\<close>
  "added_with P S al = (\<forall>x \<in> set al. x \<in> S \<or> P (snd x))"

definition all_procs2 :: "(Proc2 \<Rightarrow> bool) \<Rightarrow> Daemon2 \<Rightarrow> bool" where
  "all_procs2 P d = (\<forall>x \<in> set (procs2 d). P (snd x))"

definition admissible :: "env2 \<Rightarrow> (Proc2 \<Rightarrow> bool) \<Rightarrow> bool" where
  \<comment> \<open>\<open>P\<close> holds of every entry that is Active, Hibernated or Dead, and of every entry
      that has just been frozen and stamped with the time \<open>now_frozen E\<close>\<close>
  "admissible E P =
     ((\<forall>p. State p = StateActive \<or> State p = StateHibernated \<or> State p = StateDead \<longrightarrow> P p)
      \<and> (\<forall>p. P (p\<lparr>State := StateFrozen, FrozenAt := now_frozen E\<rparr>)))"

definition hibernates_active :: "Daemon2 \<Rightarrow> op2 \<Rightarrow> bool" where
  \<comment> \<open>the step is a \<open>Hibernate\<close> of an entry that is Active\<close>
  "hibernates_active d op =
     (case op of
        OHibernate n \<Rightarrow>
          (case map_of (procs2 d) n of Some p \<Rightarrow> State p = StateActive | None \<Rightarrow> False)
      | _ \<Rightarrow> False)"


subsection \<open>Concrete environments and daemons for the second copy\<close>

definition okEnv2 :: env2 where
  "okEnv2 = \<lparr>run_tool = (\<lambda>b args. (2000000, [], None)),
             gpu_mem = (\<lambda>pid. 512),
             now_started = 10, now_emit = 11,
             create_file = (\<lambda>path. None),
             start_cmd = (\<lambda>argv dir vars.
                           Inr (if argv = [''sleep'', ''3600''] then 4242
                                else if argv = [''sleep'', ''60''] then 4343
                                else if argv = [''true''] then 4444 else 4545)),
             environ = [], getuid = 1000, site_packages = [],
             read_file = (\<lambda>path. Inr []),
             query_gpus = [], host_mem = (65536, 32768), driver_version = [],
             age_of = (\<lambda>t. []), range_keys = (\<lambda>ks. ks), sort_choice = (\<lambda>xs. xs),
             new_chan = 0, write_ok = True,
             fmt_q = (\<lambda>s. [CHR 0x22] @ s @ [CHR 0x22]),
             trim_space = (\<lambda>s. s),
             path_join = (\<lambda>a b. a @ ''/'' @ b),
             unmarshal_run = (\<lambda>s. Inl ''unexpected end of JSON input''),
             unmarshal_name = (\<lambda>s. Inr \<lparr>np_Name = s\<rparr>),
             unmarshal_migrate = (\<lambda>s. Inr \<lparr>mig_Name = s, mig_GPU = 1\<rparr>),
             unmarshal_logs = (\<lambda>s. Inr \<lparr>lp_Name = s, lp_Lines = 0, lp_Follow = False\<rparr>),
             now_frozen = 12,
             mkdir_all = (\<lambda>dir. None),
             criu_restore_run = (\<lambda>i b args. (3000000, [], None)),
             pidfile_read = (\<lambda>i path. Inr ''5000''),
             atoi = (\<lambda>s. Inr 5000),
             fork_started = (\<lambda>i. 13),
             victim_choice = (\<lambda>xs. xs)\<rparr>"


definition criuOn :: CRIUtool where
  "criuOn = \<lparr>cr_Binary = ''/usr/sbin/criu'', cr_Available = True\<rparr>"

definition newDaemon2 :: Daemon2 where
  "newDaemon2 =
     New2 okEnv2 cudaOn criuOn
       \<lparr>c2_RAMBudgetMB = 8192, c2_DiskBudgetMB = 8192, c2_DiskDir = ''/tmp/s'',
        c2_LogDir = ''/tmp/l''\<rparr>"

definition procA2 :: "ProcessState \<Rightarrow> Proc2" where
  "procA2 s = \<lparr>Name = ''a'', PID = 4242, State = s, GPU = 0, MemMB = 0, Started = 10,
               Cmd = [''sleep'', ''3600''], LogPath = ''/tmp/l/a.log'',
               logFile = Some ''/tmp/l/a.log'', FrozenAt = 0, CRIUDir = []\<rparr>"

definition daemonWith2 :: "(string \<times> Proc2) list \<Rightarrow> Daemon2" where
  "daemonWith2 ps = newDaemon2\<lparr>procs2 := ps\<rparr>"

definition runC :: RunParams where
  "runC = \<lparr>run_Name = ''c'', run_Cmd = [''true''], run_Dir = [], run_GPU = 0\<rparr>"

definition runE :: RunParams where
  "runE = \<lparr>run_Name = ''e'', run_Cmd = [''cat''], run_Dir = [], run_GPU = 1\<rparr>"


definition fourProcs :: Daemon2 where
  \<comment> \<open>four processes started; then one frozen, one hibernated, one exited\<close>
  "fourProcs =
     foldl (applyOp2 okEnv2) newDaemon2
       [ORun runA, ORun runB, ORun runC, ORun runE,
        OFreeze ''a'', OHibernate ''b'', OExit ''c'' None]"

section \<open>Basic facts\<close>

lemmas state_defs = StateActive_def StateFrozen_def StateHibernated_def StateDead_def

lemma procs_emit [simp]: "procs (emit E e d) = procs d"
  by (simp add: emit_def Let_def)

lemma metrics_emit [simp]: "metrics (emit E e d) = metrics d"
  by (simp add: emit_def Let_def)

lemma io_emit [simp]: "io (emit E e d) = io d"
  by (simp add: emit_def Let_def)

lemma cuda_emit [simp]: "cuda (emit E e d) = cuda d"
  by (simp add: emit_def Let_def)

lemma State_refreshMem [simp]: "State (refreshMem E p) = State p"
  by (simp add: refreshMem_def Let_def)

lemma PID_refreshMem [simp]: "PID (refreshMem E p) = PID p"
  by (simp add: refreshMem_def Let_def)

lemma GPU_refreshMem [simp]: "GPU (refreshMem E p) = GPU p"
  by (simp add: refreshMem_def Let_def)

lemma Name_refreshMem [simp]: "Name (refreshMem E p) = Name p"
  by (simp add: refreshMem_def Let_def)

lemma exec_result:
  "run_tool E (Binary c) (tool_args action pid extra) = (el, out, err) \<Longrightarrow>
   exec c E action pid extra tr0 =
     ((el, case err of Some e \<Rightarrow> Some (ToolFailure action pid out e) | None \<Rightarrow> None),
      tr0 @ [Exec (Binary c) (tool_args action pid extra)])"
  by (simp add: exec_def Let_def split: option.splits)

lemma run_available:
  "Available c \<Longrightarrow> run_tool E (Binary c) (tool_args action pid []) = (el, out, err) \<Longrightarrow>
   run c E action pid tr0 =
     ((el, case err of Some e \<Rightarrow> Some (ToolFailure action pid out e) | None \<Rightarrow> None),
      tr0 @ [Exec (Binary c) (tool_args action pid [])])"
  by (simp add: run_def exec_result)

lemma run_tool_toolFails [simp]:
  "run_tool (toolFails x) b (tool_args a pid extra) =
     (if a = x then (1000000, ''failed'', Some ''exit status 1'') else (2000000, [], None))"
  by (simp add: toolFails_def tool_args_def)

section \<open>The checkpoint adapter's compound freeze\<close>

text \<open>
  Claim C5. With the tool available, \<open>CUDA.Freeze\<close> invokes lock and then checkpoint.
  When lock fails, that failure is returned (wrapped as \<open>lock: ...\<close>) and lock is the
  only invocation. When checkpoint fails, unlock is invoked after it, the outcome of
  unlock is not looked at, and the checkpoint failure is returned (wrapped as
  \<open>checkpoint: ...\<close>). Here \<open>(ld, lout, lerr)\<close> and \<open>(cd, cout, cerr)\<close> name what the
  tool answers to lock and to checkpoint.
\<close>

theorem CUDA_Freeze_lock_checkpoint_rollback:
  assumes "Available c"
    and "run_tool E (Binary c) (tool_args ''lock'' pid []) = (ld, lout, lerr)"
    and "run_tool E (Binary c) (tool_args ''checkpoint'' pid []) = (cd, cout, cerr)"
  shows "CUDA_Freeze c E pid tr0 =
     (case lerr of
        Some e \<Rightarrow>
          ((ld, Some (Wrapped ''lock'' (ToolFailure ''lock'' pid lout e))),
           tr0 @ [Exec (Binary c) (tool_args ''lock'' pid [])])
      | None \<Rightarrow>
         (case cerr of
            Some e \<Rightarrow>
              ((ld + cd, Some (Wrapped ''checkpoint'' (ToolFailure ''checkpoint'' pid cout e))),
               tr0 @ [Exec (Binary c) (tool_args ''lock'' pid []),
                     Exec (Binary c) (tool_args ''checkpoint'' pid []),
                     Exec (Binary c) (tool_args ''unlock'' pid [])])
          | None \<Rightarrow>
              ((ld + cd, None),
               tr0 @ [Exec (Binary c) (tool_args ''lock'' pid []),
                     Exec (Binary c) (tool_args ''checkpoint'' pid [])])))"
proof -
  obtain ud uout uerr where
    u: "run_tool E (Binary c) (tool_args ''unlock'' pid []) = (ud, uout, uerr)"
    by (cases "run_tool E (Binary c) (tool_args ''unlock'' pid [])") auto
  show ?thesis
    using assms u
    by (simp add: CUDA_Freeze_def Lock_def Checkpoint_def Unlock_def run_available
        split: option.splits)
qed

theorem CUDA_Freeze_witness:
  "CUDA_Freeze cudaOn (toolFails ''checkpoint'') 7 [] =
     ((3000000, Some (Wrapped ''checkpoint''
         (ToolFailure ''checkpoint'' 7 ''failed'' ''exit status 1''))),
      [Exec (Binary cudaOn) (tool_args ''lock'' 7 []),
       Exec (Binary cudaOn) (tool_args ''checkpoint'' 7 []),
       Exec (Binary cudaOn) (tool_args ''unlock'' 7 [])])
   \<and> CUDA_Freeze cudaOn (toolFails ''lock'') 7 [] =
     ((1000000, Some (Wrapped ''lock'' (ToolFailure ''lock'' 7 ''failed'' ''exit status 1''))),
      [Exec (Binary cudaOn) (tool_args ''lock'' 7 [])])"
  using CUDA_Freeze_lock_checkpoint_rollback
          [of cudaOn "toolFails ''checkpoint''" 7 2000000 "[]" None
              1000000 "''failed''" "Some ''exit status 1''" "[]"]
        CUDA_Freeze_lock_checkpoint_rollback
          [of cudaOn "toolFails ''lock''" 7 1000000 "''failed''" "Some ''exit status 1''"
              2000000 "[]" None "[]"]
  by (simp add: cudaOn_def)

lemma CUDA_Freeze_unavailable:
  "\<not> Available c \<Longrightarrow> CUDA_Freeze c E pid tr0 = ((0, Some (Wrapped ''lock'' NotAvailable)), tr0)"
  by (simp add: CUDA_Freeze_def Lock_def run_def)

section \<open>Freeze without the tool\<close>

text \<open>
  Claim C6. \<open>Freeze\<close> of an existing Active entry, when the tool was not found, fails
  with the error whose text is exactly \<open>cuda-checkpoint not available\<close>; the daemon it
  returns is the daemon it was given, so the entry is still Active and nothing else
  in the registry has changed.
\<close>

theorem Freeze_capability_missing:
  assumes "map_of (procs d) n = Some p" and "State p = StateActive" and "\<not> Available (cuda d)"
  shows "\<exists>err. Freeze E d n = (Inl err, d) \<and> Error E err = ''cuda-checkpoint not available''
           \<and> map_of (procs d) n = Some p \<and> State p = StateActive"
  using assms by (simp add: Freeze_def)

theorem Freeze_capability_missing_witness:
  "\<exists>err. Freeze okEnv (daemonWith cudaOff [(''a'', procA StateActive)]) ''a''
           = (Inl err, daemonWith cudaOff [(''a'', procA StateActive)])
         \<and> Error okEnv err = ''cuda-checkpoint not available''
         \<and> map_of (procs (daemonWith cudaOff [(''a'', procA StateActive)])) ''a''
             = Some (procA StateActive)
         \<and> State (procA StateActive) = StateActive"
  using Freeze_capability_missing
          [of "daemonWith cudaOff [(''a'', procA StateActive)]" "''a''" "procA StateActive" okEnv]
  by (simp add: daemonWith_def cudaOff_def procA_def)

section \<open>Kill removes the entry\<close>

lemma Kill_ok_removes:
  assumes "Kill E d n = (None, d1)"
  shows "map_of (procs d1) n = None \<and> Kill E' d1 n = (Some (NotFound n), d1)"
proof -
  from assms have "map_of (procs d1) n = None"
    by (auto simp: Kill_def Let_def delete_conv' split: option.splits)
  then show ?thesis by (simp add: Kill_def)
qed

text \<open>
  Claim C7. \<open>Kill\<close> of a name that is registered succeeds; afterwards the registry has
  no entry under that name and the entries under the other names are as before. A second
  \<open>Kill\<close> of the name on the resulting daemon fails with the not-found error, whose
  text is \<open>process\<close>, the quoted name, \<open>not found\<close>, and changes nothing.
\<close>

theorem Kill_removes_then_NotFound:
  assumes "map_of (procs d) n = Some p"
  shows "fst (Kill E d n) = None
       \<and> map_of (procs (snd (Kill E d n))) n = None
       \<and> (\<forall>k. k \<noteq> n \<longrightarrow> map_of (procs (snd (Kill E d n))) k = map_of (procs d) k)
       \<and> Kill E' (snd (Kill E d n)) n = (Some (NotFound n), snd (Kill E d n))
       \<and> Error E' (NotFound n) = ''process '' @ fmt_q E' n @ '' not found''"
proof -
  have ok: "fst (Kill E d n) = None"
    using assms by (simp add: Kill_def Let_def)
  have gone: "map_of (procs (snd (Kill E d n))) n = None"
    using assms by (simp add: Kill_def Let_def delete_conv')
  have rest: "\<forall>k. k \<noteq> n \<longrightarrow> map_of (procs (snd (Kill E d n))) k = map_of (procs d) k"
    using assms by (simp add: Kill_def Let_def delete_conv' update_conv')
  have "Kill E' (snd (Kill E d n)) n = (Some (NotFound n), snd (Kill E d n))"
    using gone by (simp add: Kill_def)
  with ok gone rest show ?thesis by simp
qed

theorem Kill_removes_then_NotFound_witness:
  "map_of (procs (daemonWith cudaOn [(''ghost'', procA StateActive)])) ''ghost''
     = Some (procA StateActive)
   \<and> fst (Kill okEnv (daemonWith cudaOn [(''ghost'', procA StateActive)]) ''ghost'') = None
   \<and> map_of (procs (snd (Kill okEnv (daemonWith cudaOn [(''ghost'', procA StateActive)])
        ''ghost''))) ''ghost'' = None
   \<and> Kill okEnv (snd (Kill okEnv (daemonWith cudaOn [(''ghost'', procA StateActive)]) ''ghost''))
       ''ghost''
     = (Some (NotFound ''ghost''),
        snd (Kill okEnv (daemonWith cudaOn [(''ghost'', procA StateActive)]) ''ghost''))
   \<and> Error okEnv (NotFound ''ghost'') = ''process '' @ [CHR 0x22] @ ''ghost'' @ [CHR 0x22]
        @ '' not found''"
proof -
  have h: "map_of (procs (daemonWith cudaOn [(''ghost'', procA StateActive)])) ''ghost''
      = Some (procA StateActive)"
    by (simp add: daemonWith_def)
  from Kill_removes_then_NotFound [OF h, of okEnv okEnv] h show ?thesis
    by (simp add: okEnv_def)
qed

section \<open>The same two failures, as the router answers them\<close>

lemma Handle_freeze_capability_missing:
  assumes "req_Method req = ''freeze''"
    and "unmarshal_name E (req_Params req) = Inr \<lparr>np_Name = n\<rparr>"
    and "map_of (procs d) n = Some p" and "State p = StateActive"
    and "\<not> Available (cuda d)"
  shows "Handle E d req =
           (Some (ErrResponse ''cuda-checkpoint not available''),
            d\<lparr>metrics := (metrics d)\<lparr>Requests := Requests (metrics d) + 1\<rparr>\<rparr>)"
  using assms by (simp add: Handle_def Let_def Freeze_def reply_def)

lemma Handle_kill_missing:
  assumes "req_Method req = ''kill''"
    and "unmarshal_name E (req_Params req) = Inr \<lparr>np_Name = n\<rparr>"
    and "map_of (procs d) n = None"
  shows "Handle E d req =
           (Some (ErrResponse (''process '' @ fmt_q E n @ '' not found'')),
            d\<lparr>metrics := (metrics d)\<lparr>Requests := Requests (metrics d) + 1\<rparr>\<rparr>)"
  using assms by (simp add: Handle_def Let_def Kill_def reply_def)

section \<open>What the operations do to an entry\<close>

lemma Run_entry:
  assumes "Run E d params = (Inr r, d1)"
  shows "map_of (procs d1) (run_Name params) =
           Some \<lparr>Name = run_Name params, PID = rr_PID r, State = StateActive,
                 GPU = run_GPU params, MemMB = 0, Started = now_started E,
                 Cmd = run_Cmd params,
                 LogPath = path_join E (LogDir (cfg d)) (run_Name params @ ''.log''),
                 logFile = Some (path_join E (LogDir (cfg d)) (run_Name params @ ''.log''))\<rparr>"
  using assms
  by (auto simp: Run_def Let_def update_conv' split: if_splits option.splits sum.splits)

lemma Freeze_entry:
  assumes "Freeze E d n = (Inr r, d')"
  shows "\<exists>p. map_of (procs d) n = Some p \<and> State p = StateActive \<and> Available (cuda d)
           \<and> map_of (procs d') n = Some ((refreshMem E p)\<lparr>State := StateFrozen\<rparr>)
           \<and> r = \<lparr>fr_Name = n,
                   fr_DurationMs = Milliseconds (fst (fst (CUDA_Freeze (cuda d) E (PID p) (io d)))),
                   fr_Tier = [], fr_MemMB = MemMB (refreshMem E p)\<rparr>"
  using assms
  by (auto simp: Freeze_def Let_def update_conv' split: if_splits option.splits prod.splits)

lemma Thaw_entry:
  assumes "Thaw E d n = (Inr r, d')"
  shows "\<exists>p. map_of (procs d) n = Some p \<and> State p = StateFrozen
           \<and> map_of (procs d') n = Some (p\<lparr>State := StateActive\<rparr>)"
  using assms
  by (auto simp: Thaw_def Let_def update_conv' split: if_splits option.splits prod.splits)

lemma Run_succeeds:
  assumes "map_of (procs d) (run_Name params) = None" and "run_Cmd params \<noteq> []"
    and "create_file E (path_join E (LogDir (cfg d)) (run_Name params @ ''.log'')) = None"
    and "\<And>vars. start_cmd E (run_Cmd params) (run_Dir params) vars = Inr pid"
  shows "\<exists>d1. Run E d params = (Inr \<lparr>rr_Name = run_Name params, rr_PID = pid\<rparr>, d1)"
  using assms by (simp add: Run_def Let_def)

lemma CUDA_Freeze_succeeds:
  assumes "Available c"
    and "run_tool E (Binary c) (tool_args ''lock'' pid []) = (ld, lout, None)"
    and "run_tool E (Binary c) (tool_args ''checkpoint'' pid []) = (cd, cout, None)"
  shows "CUDA_Freeze c E pid tr0 =
           ((ld + cd, None), tr0 @ [Exec (Binary c) (tool_args ''lock'' pid []),
                                    Exec (Binary c) (tool_args ''checkpoint'' pid [])])"
  using assms
  by (simp add: CUDA_Freeze_def Lock_def Checkpoint_def run_available)

lemma CUDA_Thaw_succeeds:
  assumes "Available c"
    and "run_tool E (Binary c) (tool_args ''restore'' pid []) = (rd, rout, None)"
    and "run_tool E (Binary c) (tool_args ''unlock'' pid []) = (ud, uout, None)"
  shows "CUDA_Thaw c E pid tr0 =
           ((rd + ud, None), tr0 @ [Exec (Binary c) (tool_args ''restore'' pid []),
                                    Exec (Binary c) (tool_args ''unlock'' pid [])])"
  using assms
  by (simp add: CUDA_Thaw_def Restore_def Unlock_def run_available)

lemma Freeze_succeeds:
  assumes "map_of (procs d) n = Some p" and "State p = StateActive" and "Available (cuda d)"
    and "run_tool E (Binary (cuda d)) (tool_args ''lock'' (PID p) []) = (ld, lout, None)"
    and "run_tool E (Binary (cuda d)) (tool_args ''checkpoint'' (PID p) []) = (cd, cout, None)"
    and "Freezes (metrics d) + 1 \<noteq> 0"
  shows "\<exists>r d'. Freeze E d n = (Inr r, d')"
  using assms by (simp add: Freeze_def Let_def CUDA_Freeze_succeeds)

lemma Thaw_succeeds:
  assumes "map_of (procs d) n = Some p" and "State p = StateFrozen" and "Available (cuda d)"
    and "run_tool E (Binary (cuda d)) (tool_args ''restore'' (PID p) []) = (rd, rout, None)"
    and "run_tool E (Binary (cuda d)) (tool_args ''unlock'' (PID p) []) = (ud, uout, None)"
    and "Thaws (metrics d) + 1 \<noteq> 0"
  shows "\<exists>r d'. Thaw E d n = (Inr r, d')"
  using assms by (simp add: Thaw_def Let_def CUDA_Thaw_succeeds)

lemma run_tool_okEnv [simp]: "run_tool okEnv b args = (2000000, [], None)"
  by (simp add: okEnv_def)

lemma cuda_Freeze_ok:
  "Freeze E d n = (Inr r, d') \<Longrightarrow> cuda d' = cuda d \<and> Thaws (metrics d') = Thaws (metrics d)"
  by (auto simp: Freeze_def Let_def split: option.splits if_splits prod.splits)

lemma cuda_Run: "cuda (snd (Run E d params)) = cuda d"
  by (auto simp: Run_def Let_def split: option.splits if_splits sum.splits)

lemma metrics_Run_ok:
  "Run E d params = (Inr r, d1) \<Longrightarrow> cuda d1 = cuda d \<and> Freezes (metrics d1) = Freezes (metrics d)
     \<and> Thaws (metrics d1) = Thaws (metrics d)"
  by (auto simp: Run_def Let_def split: option.splits if_splits sum.splits)

section \<open>Freeze followed by thaw\<close>

text \<open>
  Claim C1. When \<open>Run\<close> succeeds it registers an Active entry under the requested name
  with the requested GPU and the pid of the child. If \<open>Freeze\<close> of that name then
  succeeds, and \<open>Thaw\<close> of that name succeeds after it, the entry is Active again with
  the name, the pid and the GPU it had before the freeze.
\<close>

theorem Run_Freeze_Thaw_roundtrip:
  assumes "Run E1 d params = (Inr r, d1)"
    and "Freeze E2 d1 (run_Name params) = (Inr fr, d2)"
    and "Thaw E3 d2 (run_Name params) = (Inr tr, d3)"
  shows "\<exists>p1 p3. map_of (procs d1) (run_Name params) = Some p1
           \<and> State p1 = StateActive \<and> Name p1 = run_Name params
           \<and> PID p1 = rr_PID r \<and> GPU p1 = run_GPU params
           \<and> map_of (procs d3) (run_Name params) = Some p3
           \<and> State p3 = StateActive \<and> Name p3 = Name p1
           \<and> PID p3 = PID p1 \<and> GPU p3 = GPU p1"
proof -
  from Run_entry [OF assms(1)] obtain p1 where
    p1: "map_of (procs d1) (run_Name params) = Some p1" "State p1 = StateActive"
      "Name p1 = run_Name params" "PID p1 = rr_PID r" "GPU p1 = run_GPU params"
    by simp
  from Freeze_entry [OF assms(2)] p1(1) have
    p2: "map_of (procs d2) (run_Name params) = Some ((refreshMem E2 p1)\<lparr>State := StateFrozen\<rparr>)"
    by auto
  from Thaw_entry [OF assms(3)] p2 have
    "map_of (procs d3) (run_Name params)
       = Some ((refreshMem E2 p1)\<lparr>State := StateFrozen, State := StateActive\<rparr>)"
    by auto
  with p1 show ?thesis by simp
qed

theorem Run_Freeze_Thaw_witness:
  "\<exists>p3. map_of (procs (snd (Thaw okEnv (snd (Freeze okEnv
             (snd (Run okEnv (daemonWith cudaOn []) runA)) ''a'')) ''a''))) ''a'' = Some p3
        \<and> State p3 = StateActive \<and> Name p3 = ''a'' \<and> PID p3 = 4242 \<and> GPU p3 = 0"
proof -
  obtain d1 where r1: "Run okEnv (daemonWith cudaOn []) runA
      = (Inr \<lparr>rr_Name = run_Name runA, rr_PID = 4242\<rparr>, d1)"
    using Run_succeeds [of "daemonWith cudaOn []" runA okEnv 4242]
    by (auto simp: daemonWith_def runA_def okEnv_def)
  from Run_entry [OF r1] metrics_Run_ok [OF r1]
  obtain p1 where p1: "map_of (procs d1) ''a'' = Some p1" "State p1 = StateActive"
      "PID p1 = 4242" "cuda d1 = cudaOn" "Freezes (metrics d1) = 0" "Thaws (metrics d1) = 0"
    by (auto simp: runA_def daemonWith_def zeroMetrics_def)
  obtain fr d2 where r2: "Freeze okEnv d1 (run_Name runA) = (Inr fr, d2)"
    using Freeze_succeeds [of d1 "''a''" p1 okEnv 2000000 "[]" 2000000 "[]"] p1
    by (auto simp: cudaOn_def runA_def)
  from Freeze_entry [OF r2] cuda_Freeze_ok [OF r2] p1
  obtain p2 where p2: "map_of (procs d2) ''a'' = Some p2" "State p2 = StateFrozen"
      "PID p2 = 4242" "cuda d2 = cudaOn" "Thaws (metrics d2) = 0"
    by (auto simp: runA_def)
  obtain tr d3 where r3: "Thaw okEnv d2 (run_Name runA) = (Inr tr, d3)"
    using Thaw_succeeds [of d2 "''a''" p2 okEnv 2000000 "[]" 2000000 "[]"] p2
    by (auto simp: cudaOn_def runA_def)
  from Run_Freeze_Thaw_roundtrip [OF r1 r2 r3] r1 r2 r3 show ?thesis
    by (auto simp: runA_def)
qed

section \<open>Thaw when the restore fails\<close>

text \<open>
  Claim C4. \<open>Thaw\<close> of a Frozen entry sends CONT and then runs the adapter's restore.
  When the restore fails with \<open>e\<close>, STOP is sent again and the error is returned,
  wrapped as \<open>cuda thaw: restore: e\<close>. The daemon returned differs from the one given only
  in the record of the calls issued (CONT first, whatever the restore issued, STOP
  last): the entry, still Frozen, the counters, the averages and the events are what
  they were.
\<close>

theorem Thaw_restore_failure:
  assumes "map_of (procs d) n = Some p" and "State p = StateFrozen"
    and "Restore (cuda d) E (PID p) (io d @ [Signal (PID p) SIGCONT]) = ((rd, Some e), tr1)"
  shows "Thaw E d n =
           (Inl (Wrapped ''cuda thaw'' (Wrapped ''restore'' e)),
            d\<lparr>io := tr1 @ [Signal (PID p) SIGSTOP]\<rparr>)
       \<and> (\<exists>calls. tr1 = io d @ Signal (PID p) SIGCONT # calls)
       \<and> procs (snd (Thaw E d n)) = procs d
       \<and> metrics (snd (Thaw E d n)) = metrics d
       \<and> thawTotalMs (snd (Thaw E d n)) = thawTotalMs d
       \<and> events (snd (Thaw E d n)) = events d
       \<and> subs (snd (Thaw E d n)) = subs d"
  using assms
  by (auto simp: Thaw_def CUDA_Thaw_def Restore_def run_def exec_def Let_def
      split: if_splits prod.splits option.splits)

theorem Thaw_restore_failure_witness:
  "Thaw (toolFails ''restore'') (daemonWith cudaOn [(''a'', procA StateFrozen)]) ''a'' =
     (Inl (Wrapped ''cuda thaw'' (Wrapped ''restore''
             (ToolFailure ''restore'' 4242 ''failed'' ''exit status 1''))),
      (daemonWith cudaOn [(''a'', procA StateFrozen)])
        \<lparr>io := [Signal 4242 SIGCONT,
                Exec ''/usr/bin/cuda-checkpoint'' (tool_args ''restore'' 4242 []),
                Signal 4242 SIGSTOP]\<rparr>)"
proof -
  let ?d = "daemonWith cudaOn [(''a'', procA StateFrozen)]"
  have e: "map_of (procs ?d) ''a'' = Some (procA StateFrozen)"
    by (simp add: daemonWith_def)
  have f: "State (procA StateFrozen) = StateFrozen"
    by (simp add: procA_def)
  have h: "Restore (cuda ?d) (toolFails ''restore'') (PID (procA StateFrozen))
             (io ?d @ [Signal (PID (procA StateFrozen)) SIGCONT])
           = ((1000000, Some (ToolFailure ''restore'' 4242 ''failed'' ''exit status 1'')),
              [Signal 4242 SIGCONT,
               Exec ''/usr/bin/cuda-checkpoint'' (tool_args ''restore'' 4242 [])])"
    by (simp add: Restore_def run_available daemonWith_def procA_def cudaOn_def)
  from Thaw_restore_failure [OF e f h] show ?thesis
    by (simp add: procA_def)
qed

section \<open>Migrate\<close>

lemma run_err: "run c E a pid tr0 = ((el, Some e), tr1) \<Longrightarrow> \<not> wrong_state e"
  by (auto simp: run_def exec_def Let_def split: if_splits option.splits prod.splits)

lemma RestoreOnDevice_err:
  "RestoreOnDevice c E pid g tr0 = ((el, Some e), tr1) \<Longrightarrow> \<not> wrong_state e"
  by (auto simp: RestoreOnDevice_def exec_def Let_def split: if_splits option.splits prod.splits)

lemma CUDA_Freeze_err:
  "CUDA_Freeze c E pid tr0 = ((el, Some e), tr1) \<Longrightarrow> \<not> wrong_state e"
  by (auto simp: CUDA_Freeze_def Lock_def Checkpoint_def Let_def
      split: if_splits option.splits prod.splits dest: run_err)

lemma Migrate_err:
  assumes "map_of (procs d) (mig_Name params) = Some p"
    and "fst (Migrate E d params) = Inl err"
  shows "\<not> wrong_state err"
  using assms
  by (auto simp: Migrate_def Let_def Unlock_def
      split: if_splits option.splits prod.splits
      dest: run_err RestoreOnDevice_err CUDA_Freeze_err)

lemma Migrate_not_active:
  assumes "map_of (procs d) (mig_Name params) = Some p"
    and "State p \<noteq> StateActive" and "Available (cuda d)"
    and "run_tool E (Binary (cuda d))
           (tool_args ''restore'' (PID p) [''--device'', Itoa (mig_GPU params)]) = (rd, rout, rerr)"
    and "run_tool E (Binary (cuda d)) (tool_args ''unlock'' (PID p) []) = (ud, uout, uerr)"
  shows "io (snd (Migrate E d params)) =
           io d @ [Signal (PID p) SIGCONT,
                   Exec (Binary (cuda d))
                     (tool_args ''restore'' (PID p) [''--device'', Itoa (mig_GPU params)])]
                @ (if rerr = None then [Exec (Binary (cuda d)) (tool_args ''unlock'' (PID p) [])]
                   else [])"
    and "rerr = None \<Longrightarrow> uerr = None \<Longrightarrow>
           fst (Migrate E d params) =
             Inr \<lparr>mr_Name = mig_Name params, mr_FromGPU = GPU p, mr_ToGPU = mig_GPU params\<rparr>
           \<and> map_of (procs (snd (Migrate E d params))) (mig_Name params) =
               Some (p\<lparr>State := StateActive, GPU := mig_GPU params\<rparr>)"
  using assms
  by (auto simp: Migrate_def Let_def Unlock_def RestoreOnDevice_def exec_result run_available
      update_conv' split: option.splits)

text \<open>
  Claim C10. \<open>Migrate\<close> does not look at the state of the entry to accept or reject the
  request: for an entry that is in the registry, no error it returns is a wrong-state
  error (without the tool it fails with the not-available error and changes nothing).
  For an entry that is not Active (and the tool available) it issues neither
  lock nor checkpoint nor STOP: it sends CONT, runs the restore on the target device
  and, if that succeeded, unlock. When both succeed the entry becomes Active on the
  target GPU, whatever state it was in. Here \<open>(rd, rout, rerr)\<close> and
  \<open>(ud, uout, uerr)\<close> name what the tool answers to the restore and to the unlock.
\<close>

theorem Migrate_any_state:
  assumes "map_of (procs d) (mig_Name params) = Some p"
    and "run_tool E (Binary (cuda d))
           (tool_args ''restore'' (PID p) [''--device'', Itoa (mig_GPU params)]) = (rd, rout, rerr)"
    and "run_tool E (Binary (cuda d)) (tool_args ''unlock'' (PID p) []) = (ud, uout, uerr)"
  shows "(\<forall>err. fst (Migrate E d params) = Inl err \<longrightarrow> \<not> wrong_state err)
       \<and> (\<not> Available (cuda d) \<longrightarrow> Migrate E d params = (Inl NotAvailable, d))
       \<and> (State p \<noteq> StateActive \<and> Available (cuda d) \<longrightarrow>
            io (snd (Migrate E d params)) =
              io d @ [Signal (PID p) SIGCONT,
                      Exec (Binary (cuda d))
                        (tool_args ''restore'' (PID p) [''--device'', Itoa (mig_GPU params)])]
                   @ (if rerr = None
                      then [Exec (Binary (cuda d)) (tool_args ''unlock'' (PID p) [])] else [])
            \<and> (rerr = None \<and> uerr = None \<longrightarrow>
                 fst (Migrate E d params) =
                   Inr \<lparr>mr_Name = mig_Name params, mr_FromGPU = GPU p,
                        mr_ToGPU = mig_GPU params\<rparr>
                 \<and> map_of (procs (snd (Migrate E d params))) (mig_Name params) =
                     Some (p\<lparr>State := StateActive, GPU := mig_GPU params\<rparr>)))"
proof -
  have "\<not> Available (cuda d) \<longrightarrow> Migrate E d params = (Inl NotAvailable, d)"
    using assms(1) by (simp add: Migrate_def)
  then show ?thesis
    using Migrate_err [OF assms(1)] Migrate_not_active [OF assms(1) _ _ assms(2) assms(3)]
    by blast
qed

theorem Migrate_any_state_witness:
  "fst (Migrate okEnv (daemonWith cudaOn [(''a'', procA StateDead)])
          \<lparr>mig_Name = ''a'', mig_GPU = 1\<rparr>)
     = Inr \<lparr>mr_Name = ''a'', mr_FromGPU = 0, mr_ToGPU = 1\<rparr>
   \<and> map_of (procs (snd (Migrate okEnv (daemonWith cudaOn [(''a'', procA StateDead)])
          \<lparr>mig_Name = ''a'', mig_GPU = 1\<rparr>))) ''a''
     = Some ((procA StateDead)\<lparr>State := StateActive, GPU := 1\<rparr>)
   \<and> io (snd (Migrate okEnv (daemonWith cudaOn [(''a'', procA StateDead)])
          \<lparr>mig_Name = ''a'', mig_GPU = 1\<rparr>))
     = [Signal 4242 SIGCONT,
        Exec ''/usr/bin/cuda-checkpoint'' (tool_args ''restore'' 4242 [''--device'', Itoa 1]),
        Exec ''/usr/bin/cuda-checkpoint'' (tool_args ''unlock'' 4242 [])]"
  using Migrate_any_state
          [of "daemonWith cudaOn [(''a'', procA StateDead)]" "\<lparr>mig_Name = ''a'', mig_GPU = 1\<rparr>"
              "procA StateDead" okEnv 2000000 "[]" None 2000000 "[]" None]
  by (simp add: daemonWith_def procA_def cudaOn_def state_defs)

section \<open>The request counter\<close>

lemma Requests_Run: "Requests (metrics (snd (Run E d p))) = Requests (metrics d)"
  by (auto simp: Run_def Let_def split: option.splits sum.splits)

lemma Requests_Freeze: "Requests (metrics (snd (Freeze E d n))) = Requests (metrics d)"
  by (auto simp: Freeze_def Let_def split: option.splits prod.splits)

lemma Requests_Thaw: "Requests (metrics (snd (Thaw E d n))) = Requests (metrics d)"
  by (auto simp: Thaw_def Let_def split: option.splits prod.splits)

lemma Requests_Kill: "Requests (metrics (snd (Kill E d n))) = Requests (metrics d)"
  by (auto simp: Kill_def Let_def split: option.splits)

lemma Requests_Migrate: "Requests (metrics (snd (Migrate E d p))) = Requests (metrics d)"
  by (auto simp: Migrate_def Let_def split: option.splits prod.splits)

lemma metrics_Status_loop:
  "metrics (fst (Status_loop E ks d infos s)) = metrics d"
  by (induction ks arbitrary: d infos s) (auto simp: Let_def split: option.splits)

lemma Requests_Status: "Requests (metrics (snd (Status E d))) = Requests (metrics d)"
  using metrics_Status_loop [of E "range_keys E (map fst (procs d))" d "[]" 0]
  by (auto simp: Status_def Let_def split: prod.splits)

lemma Requests_Logs: "Requests (metrics (snd (Logs E d n k))) = Requests (metrics d)"
  by (auto simp: Logs_def Let_def split: option.splits sum.splits)

lemmas Requests_ops = Requests_Run Requests_Freeze Requests_Thaw Requests_Kill
  Requests_Migrate Requests_Status Requests_Logs

lemma Requests_Handle:
  "Requests (metrics (snd (Handle E d req))) = Requests (metrics d) + 1"
proof -
  consider (run) "req_Method req = ''run''" | (freeze) "req_Method req = ''freeze''"
    | (thaw) "req_Method req = ''thaw''" | (kill) "req_Method req = ''kill''"
    | (migrate) "req_Method req = ''migrate''" | (status) "req_Method req = ''status''"
    | (logs) "req_Method req = ''logs''"
    | (other) "req_Method req \<notin> {''run'', ''freeze'', ''thaw'', ''kill'', ''migrate'',
         ''status'', ''logs''}"
    by blast
  then show ?thesis
  proof cases
    case run
    then show ?thesis
      by (cases "unmarshal_run E (req_Params req)")
         (simp_all add: Handle_def Let_def split_beta Requests_ops)
  next
    case freeze
    then show ?thesis
      by (cases "unmarshal_name E (req_Params req)")
         (simp_all add: Handle_def Let_def split_beta Requests_ops)
  next
    case thaw
    then show ?thesis
      by (cases "unmarshal_name E (req_Params req)")
         (simp_all add: Handle_def Let_def split_beta Requests_ops)
  next
    case kill
    then show ?thesis
      by (cases "unmarshal_name E (req_Params req)")
         (simp_all add: Handle_def Let_def split_beta Requests_ops)
  next
    case migrate
    then show ?thesis
      by (cases "unmarshal_migrate E (req_Params req)")
         (simp_all add: Handle_def Let_def split_beta Requests_ops)
  next
    case status
    then show ?thesis
      by (simp add: Handle_def Let_def split_beta Requests_ops)
  next
    case logs
    then show ?thesis
      by (cases "unmarshal_logs E (req_Params req)")
         (simp_all add: Handle_def Let_def split_beta Requests_ops)
  next
    case other
    then show ?thesis
      by (simp add: Handle_def Let_def)
  qed
qed

lemma Requests_handleSubscribe:
  "Requests (metrics (fst (fst (handleSubscribe E d)))) = Requests (metrics d)"
  using Requests_Status [of E "snd (Subscribe E d)"]
  by (simp add: handleSubscribe_def Subscribe_def split_beta)

text \<open>
  Claim C8, as the code has it. Serving one request from a connection adds exactly one
  to \<open>metrics.Requests\<close>, whatever the method, the parameters and the outcome, unless
  the method is \<open>subscribe\<close>: the connection handler serves a subscription itself,
  without calling \<open>Handle\<close>, and the counter stays as it was.
\<close>

theorem requests_counted_unless_subscribe:
  "Requests (metrics (fst (handleConn d [(E, ReqLine req)]))) =
     Requests (metrics d) + (if req_Method req = ''subscribe'' then 0 else 1)"
proof (cases "req_Method req = ''subscribe''")
  case True
  then show ?thesis
    using Requests_handleSubscribe [of E d] by (simp add: split_beta)
next
  case False
  then show ?thesis
    using Requests_Handle [of E d req]
    by (cases "Handle E d req") (auto split: option.splits)
qed

theorem requests_counted_witness:
  "Requests (metrics (fst (handleConn (daemonWith cudaOff [(''a'', procA StateActive)])
       [(okEnv, ReqLine \<lparr>req_Method = ''freeze'', req_Params = ''a''\<rparr>)]))) = 1
   \<and> Requests (metrics (fst (handleConn (daemonWith cudaOff [(''a'', procA StateActive)])
       [(okEnv, ReqLine \<lparr>req_Method = ''subscribe'', req_Params = []\<rparr>)]))) = 0"
  using requests_counted_unless_subscribe
          [of "daemonWith cudaOff [(''a'', procA StateActive)]" okEnv
              "\<lparr>req_Method = ''freeze'', req_Params = ''a''\<rparr>"]
        requests_counted_unless_subscribe
          [of "daemonWith cudaOff [(''a'', procA StateActive)]" okEnv
              "\<lparr>req_Method = ''subscribe'', req_Params = []\<rparr>"]
  by (simp add: daemonWith_def zeroMetrics_def)

text \<open>
  Claim C8, as stated, fails for \<open>subscribe\<close>: on a fresh daemon a subscribe request
  leaves the counter at zero.
\<close>

theorem subscribe_request_not_counted:
  "Requests (metrics (fst (handleConn (daemonWith cudaOn [])
       [(okEnv, ReqLine \<lparr>req_Method = ''subscribe'', req_Params = []\<rparr>)])))
     \<noteq> Requests (metrics (daemonWith cudaOn [])) + 1"
  by (simp add: handleSubscribe_def Subscribe_def Status_def split_beta okEnv_def
      daemonWith_def zeroMetrics_def)

section \<open>Entries are Active, Frozen or Dead\<close>

lemma added_ok_refl [simp]: "added_ok (set al) al"
  by (simp add: added_ok_def)

lemma added_ok_update:
  "added_ok S al \<Longrightarrow> ok_state (State v) \<Longrightarrow> added_ok S (AList.update k v al)"
  unfolding added_ok_def by (induction al) auto

lemma added_ok_delete: "added_ok S al \<Longrightarrow> added_ok S (AList.delete k al)"
  unfolding added_ok_def by (induction al) auto

lemma ok_state_simps [simp]:
  "ok_state StateActive" "ok_state StateFrozen" "ok_state StateDead"
  by (simp_all add: ok_state_def)

lemma added_Run: "added_ok (set (procs d)) (procs (snd (Run E d params)))"
  by (simp add: Run_def Let_def added_ok_update split: option.splits sum.splits)

lemma added_Freeze: "added_ok (set (procs d)) (procs (snd (Freeze E d n)))"
  by (simp add: Freeze_def Let_def added_ok_update split: option.splits prod.splits)

lemma added_Thaw: "added_ok (set (procs d)) (procs (snd (Thaw E d n)))"
  by (simp add: Thaw_def Let_def added_ok_update split: option.splits prod.splits)

lemma added_Kill: "added_ok (set (procs d)) (procs (snd (Kill E d n)))"
  by (simp add: Kill_def Let_def added_ok_update added_ok_delete split: option.splits)

lemma added_Migrate: "added_ok (set (procs d)) (procs (snd (Migrate E d params)))"
  by (simp add: Migrate_def Let_def added_ok_update split: option.splits prod.splits)

lemma added_monitor: "added_ok (set (procs d)) (procs (monitorProcess E d n err))"
  by (simp add: monitorProcess_def Let_def added_ok_update split: option.splits)

lemma added_sample: "added_ok (set (procs d)) (procs (sampleMem E d n))"
  by (simp add: sampleMem_def Let_def added_ok_update split: option.splits)

lemma added_Logs: "added_ok (set (procs d)) (procs (snd (Logs E d n k)))"
  by (simp add: Logs_def Let_def split: option.splits sum.splits)

lemma known_added:
  "known_states d \<Longrightarrow> added_ok (set (procs d)) (procs d') \<Longrightarrow> known_states d'"
  unfolding known_states_def added_ok_def by blast


lemma known_Status_loop:
  assumes "known_states d" and "\<forall>i \<in> set infos. ok_state (pi_State i)"
  shows "known_states (fst (Status_loop E ks d infos s))
       \<and> (\<forall>i \<in> set (fst (snd (Status_loop E ks d infos s))). ok_state (pi_State i))"
  using assms
proof (induction ks arbitrary: d infos s)
  case Nil
  then show ?case by simp
next
  case (Cons k ks)
  show ?case
  proof (cases "map_of (procs d) k")
    case None
    then show ?thesis using Cons by simp
  next
    case (Some p)
    have okp: "ok_state (State p)"
      using Cons.prems(1) Some unfolding known_states_def by (auto dest!: map_of_SomeD)
    define p1 where "p1 = (if State p = StateActive then refreshMem E p else p)"
    define d1 where
      "d1 = (if State p = StateActive then d\<lparr>procs := AList.update k p1 (procs d)\<rparr> else d)"
    define s1 where "s1 = (if State p1 = StateFrozen then s + MemMB p1 else s)"
    define info where
      "info = \<lparr>pi_Name = Name p1, pi_PID = PID p1, pi_State = State p1, pi_GPU = GPU p1,
         pi_MemMB = MemMB p1, pi_Age = age_of E (Started p1), pi_Started = Started p1,
         pi_Tier = (if State p1 = StateFrozen then TierRAM else TierGPU)\<rparr>"
    have step: "Status_loop E (k # ks) d infos s = Status_loop E ks d1 (infos @ [info]) s1"
      using Some by (simp add: Let_def p1_def d1_def s1_def info_def)
    have okp1: "ok_state (State p1)" using okp by (simp add: p1_def)
    have "added_ok (set (procs d)) (procs d1)"
      using okp1 by (simp add: d1_def added_ok_update)
    with Cons.prems(1) have k1: "known_states d1" by (rule known_added)
    have "\<forall>i \<in> set (infos @ [info]). ok_state (pi_State i)"
      using Cons.prems(2) okp1 by (simp add: info_def)
    from Cons.IH [OF k1 this] show ?thesis
      unfolding step .
  qed
qed

lemma known_Status: "known_states d \<Longrightarrow> known_states (snd (Status E d))"
  using known_Status_loop [of d "[]" E "range_keys E (map fst (procs d))" 0]
  by (simp add: Status_def Let_def split_beta)

lemma procs_Shutdown_loop: "procs (Shutdown_loop ks d) = procs d"
  by (induction ks arbitrary: d) (auto split: option.splits)

lemma known_Shutdown: "known_states d \<Longrightarrow> known_states (Shutdown E d)"
  by (simp add: Shutdown_def known_states_def procs_Shutdown_loop)

lemma known_Subscribe: "known_states d \<Longrightarrow> known_states (snd (Subscribe E d))"
  by (simp add: Subscribe_def known_states_def)

lemma known_Unsubscribe: "known_states d \<Longrightarrow> known_states (Unsubscribe d ch)"
  by (simp add: Unsubscribe_def known_states_def)

lemma known_Requests:
  "known_states d \<Longrightarrow> known_states (d\<lparr>metrics := m\<rparr>)"
  by (simp add: known_states_def)

lemma known_Handle:
  assumes "known_states d"
  shows "known_states (snd (Handle E d req))"
proof -
  let ?d0 = "d\<lparr>metrics := (metrics d)\<lparr>Requests := Requests (metrics d) + 1\<rparr>\<rparr>"
  have k0: "known_states ?d0" using assms by (rule known_Requests)
  note ops = known_added [OF k0 added_Run] known_added [OF k0 added_Freeze]
    known_added [OF k0 added_Thaw] known_added [OF k0 added_Kill]
    known_added [OF k0 added_Migrate] known_Status [OF k0] known_added [OF k0 added_Logs]
  consider (run) "req_Method req = ''run''" | (freeze) "req_Method req = ''freeze''"
    | (thaw) "req_Method req = ''thaw''" | (kill) "req_Method req = ''kill''"
    | (migrate) "req_Method req = ''migrate''" | (status) "req_Method req = ''status''"
    | (logs) "req_Method req = ''logs''"
    | (other) "req_Method req \<notin> {''run'', ''freeze'', ''thaw'', ''kill'', ''migrate'',
         ''status'', ''logs''}"
    by blast
  then show ?thesis
  proof cases
    case run
    then show ?thesis using k0 ops
      by (cases "unmarshal_run E (req_Params req)")
         (simp_all add: Handle_def Let_def split_beta)
  next
    case freeze
    then show ?thesis using k0 ops
      by (cases "unmarshal_name E (req_Params req)")
         (simp_all add: Handle_def Let_def split_beta)
  next
    case thaw
    then show ?thesis using k0 ops
      by (cases "unmarshal_name E (req_Params req)")
         (simp_all add: Handle_def Let_def split_beta)
  next
    case kill
    then show ?thesis using k0 ops
      by (cases "unmarshal_name E (req_Params req)")
         (simp_all add: Handle_def Let_def split_beta)
  next
    case migrate
    then show ?thesis using k0 ops
      by (cases "unmarshal_migrate E (req_Params req)")
         (simp_all add: Handle_def Let_def split_beta)
  next
    case status
    then show ?thesis using k0 ops
      by (simp add: Handle_def Let_def split_beta)
  next
    case logs
    then show ?thesis using k0 ops
      by (cases "unmarshal_logs E (req_Params req)")
         (simp_all add: Handle_def Let_def split_beta)
  next
    case other
    then show ?thesis using k0
      by (simp add: Handle_def Let_def)
  qed
qed

lemma known_handleSubscribe:
  "known_states d \<Longrightarrow> known_states (fst (fst (handleSubscribe E d)))"
  using known_Status [of "snd (Subscribe E d)" E] known_Subscribe [of d E]
  by (simp add: handleSubscribe_def split_beta)

lemma known_handleConn: "known_states d \<Longrightarrow> known_states (fst (handleConn d ls))"
proof (induction d ls rule: handleConn.induct)
  case (1 d)
  then show ?case by simp
next
  case (2 d E e rest)
  then show ?case by (simp add: split_beta)
next
  case (3 d E req rest)
  show ?case
  proof (cases "req_Method req = ''subscribe''")
    case True
    then show ?thesis
      using known_handleSubscribe [OF "3.prems", of E] by (simp add: split_beta)
  next
    case False
    obtain r d1 where h: "Handle E d req = (r, d1)" by (cases "Handle E d req")
    have k1: "known_states d1" using known_Handle [OF "3.prems", of E req] h by simp
    show ?thesis
    proof (cases r)
      case None
      then show ?thesis using False h k1 by simp
    next
      case (Some resp)
      then show ?thesis
        using False h k1 "3.IH" [OF False h [symmetric] Some _ k1]
        by (simp add: split_beta)
    qed
  qed
qed

lemma reachable_known_states: "reachable d \<Longrightarrow> known_states d"
proof (induction rule: reachable.induct)
  case (r_New E c cfg0)
  show ?case by (simp add: New_def Let_def known_states_def)
next
  case (r_Run d E params)
  then show ?case by (blast intro: known_added added_Run)
next
  case (r_Freeze d E name)
  then show ?case by (blast intro: known_added added_Freeze)
next
  case (r_Thaw d E name)
  then show ?case by (blast intro: known_added added_Thaw)
next
  case (r_Kill d E name)
  then show ?case by (blast intro: known_added added_Kill)
next
  case (r_Migrate d E mparams)
  then show ?case by (blast intro: known_added added_Migrate)
next
  case (r_Status d E)
  then show ?case by (simp add: known_Status)
next
  case (r_Logs d E name lines)
  then show ?case by (blast intro: known_added added_Logs)
next
  case (r_Handle d E req)
  then show ?case by (simp add: known_Handle)
next
  case (r_Subscribe d E)
  then show ?case by (simp add: known_Subscribe)
next
  case (r_Unsubscribe d ch)
  then show ?case by (simp add: known_Unsubscribe)
next
  case (r_Shutdown d E)
  then show ?case by (simp add: known_Shutdown)
next
  case (r_monitor d E name err)
  then show ?case by (blast intro: known_added added_monitor)
next
  case (r_sample d E name)
  then show ?case by (blast intro: known_added added_sample)
next
  case (r_conn d ls)
  then show ?case by (simp add: known_handleConn)
next
  case (r_recv d ch)
  then show ?case by (simp add: recvEvent_def known_states_def)
qed

section \<open>The order of the process list\<close>

lemma order_of_simps [simp]:
  "order_of StateActive = 0" "order_of StateFrozen = 1" "order_of StateDead = 2"
  by (simp_all add: order_of_def order_def state_defs)

lemma spec_rank_simps [simp]:
  "spec_rank StateActive = 0" "spec_rank StateFrozen = 1"
  "spec_rank StateHibernated = 2" "spec_rank StateDead = 3"
  by (simp_all add: spec_rank_def state_defs)

lemma less_state_rank:
  assumes "ok_state (pi_State a)" and "ok_state (pi_State b)"
  shows "less_state a b \<longleftrightarrow> spec_rank (pi_State a) < spec_rank (pi_State b)"
  using assms
  by (auto simp: ok_state_def less_state_def word_sless_alt)

lemma insertLeft_sorted:
  fixes f :: "'a \<Rightarrow> nat"
  assumes "\<forall>a \<in> insert x (set acc). \<forall>b \<in> insert x (set acc). lt a b \<longleftrightarrow> f a < f b"
    and "sorted_wrt (\<lambda>a b. f b \<le> f a) acc"
  shows "sorted_wrt (\<lambda>a b. f b \<le> f a) (insertLeft lt x acc)
       \<and> set (insertLeft lt x acc) = insert x (set acc)"
  using assms
proof (induction acc)
  case Nil
  then show ?case by simp
next
  case (Cons y ys)
  show ?case
  proof (cases "lt x y")
    case True
    then have "f x < f y" using Cons.prems(1) by simp
    moreover have "sorted_wrt (\<lambda>a b. f b \<le> f a) (insertLeft lt x ys)
        \<and> set (insertLeft lt x ys) = insert x (set ys)"
      using Cons.IH Cons.prems by simp
    ultimately show ?thesis using True Cons.prems(2) by auto
  next
    case False
    then have "f y \<le> f x" using Cons.prems(1) by (simp add: not_less)
    then show ?thesis using False Cons.prems(2) by auto
  qed
qed

lemma foldl_insertLeft_sorted:
  fixes f :: "'a \<Rightarrow> nat"
  assumes "\<forall>a \<in> set acc \<union> set xs. \<forall>b \<in> set acc \<union> set xs. lt a b \<longleftrightarrow> f a < f b"
    and "sorted_wrt (\<lambda>a b. f b \<le> f a) acc"
  shows "sorted_wrt (\<lambda>a b. f b \<le> f a) (foldl (\<lambda>acc x. insertLeft lt x acc) acc xs)
       \<and> set (foldl (\<lambda>acc x. insertLeft lt x acc) acc xs) = set acc \<union> set xs"
  using assms
proof (induction xs arbitrary: acc)
  case Nil
  then show ?case by simp
next
  case (Cons x xs)
  have ins: "sorted_wrt (\<lambda>a b. f b \<le> f a) (insertLeft lt x acc)
      \<and> set (insertLeft lt x acc) = insert x (set acc)"
    using Cons.prems by (intro insertLeft_sorted) auto
  then have "\<forall>a \<in> set (insertLeft lt x acc) \<union> set xs.
      \<forall>b \<in> set (insertLeft lt x acc) \<union> set xs. lt a b \<longleftrightarrow> f a < f b"
    using Cons.prems(1) by auto
  from Cons.IH [OF this] ins show ?case by auto
qed

lemma sort_Slice_sorted:
  fixes f :: "'a \<Rightarrow> nat"
  assumes "\<forall>a \<in> set xs. \<forall>b \<in> set xs. lt a b \<longleftrightarrow> f a < f b"
  shows "sorted (map f (sort_Slice choice lt xs))" and "set (sort_Slice choice lt xs) = set xs"
proof -
  define zs where "zs = (if mset (choice xs) = mset xs then choice xs else xs)"
  have z: "set zs = set xs"
    by (auto simp: zs_def dest: mset_eq_setD)
  have s: "sort_Slice choice lt xs = rev (foldl (\<lambda>acc x. insertLeft lt x acc) [] zs)"
    by (simp add: sort_Slice_def Let_def zs_def)
  have "\<forall>a \<in> set [] \<union> set zs. \<forall>b \<in> set [] \<union> set zs. lt a b \<longleftrightarrow> f a < f b"
    using assms z by simp
  from foldl_insertLeft_sorted [OF this] z
  show "sorted (map f (sort_Slice choice lt xs))"
    and "set (sort_Slice choice lt xs) = set xs"
    by (simp_all add: s sorted_map sorted_wrt_rev sorted_wrt_map rev_map)
qed

lemma hibernated_sorts_before_frozen:
  "map pi_State (sort_Slice (\<lambda>xs. xs) less_state
     [\<lparr>pi_Name = ''x'', pi_PID = 1, pi_State = StateFrozen, pi_GPU = 0, pi_MemMB = 0,
        pi_Age = [], pi_Started = 0, pi_Tier = TierRAM\<rparr>,
      \<lparr>pi_Name = ''y'', pi_PID = 2, pi_State = StateHibernated, pi_GPU = 0, pi_MemMB = 0,
        pi_Age = [], pi_Started = 0, pi_Tier = TierGPU\<rparr>])
   = [StateHibernated, StateFrozen]"
  by (simp add: sort_Slice_def less_state_def order_of_def order_def state_defs word_sless_alt)

section \<open>What a freeze records\<close>

lemma emit_last:
  "events (emit E e d) \<noteq> [] \<and> last (events (emit E e d)) = e\<lparr>ev_Time := now_emit E\<rparr>"
  by (simp add: emit_def Let_def)

lemma Freeze_event:
  assumes "Freeze E d n = (Inr r, d')"
  shows "events d' \<noteq> [] \<and> ev_Time (last (events d')) = now_emit E
       \<and> ev_Type (last (events d')) = ''freeze'' \<and> ev_Process (last (events d')) = n"
  using assms
  by (auto simp: Freeze_def Let_def emit_last event_def split: option.splits if_splits prod.splits)

section \<open>The second copy: what the operations do to the registry\<close>

lemma procs2_emit2 [simp]: "procs2 (emit2 E e d) = procs2 d"
  by (simp add: emit2_def Let_def)
lemma metrics2_emit2 [simp]: "metrics2 (emit2 E e d) = metrics2 d"
  by (simp add: emit2_def Let_def)
lemma io2_emit2 [simp]: "io2 (emit2 E e d) = io2 d"
  by (simp add: emit2_def Let_def)
lemma cuda2_emit2 [simp]: "cuda2 (emit2 E e d) = cuda2 d"
  by (simp add: emit2_def Let_def)
lemma criu2_emit2 [simp]: "criu2 (emit2 E e d) = criu2 d"
  by (simp add: emit2_def Let_def)
lemma cfg2_emit2 [simp]: "cfg2 (emit2 E e d) = cfg2 d"
  by (simp add: emit2_def Let_def)
lemma totals_emit2 [simp]:
  "freezeTotalMs2 (emit2 E e d) = freezeTotalMs2 d" "thawTotalMs2 (emit2 E e d) = thawTotalMs2 d"
  by (simp_all add: emit2_def Let_def)

lemma refreshMem2_simps [simp]:
  "State (refreshMem2 E p) = State p" "PID (refreshMem2 E p) = PID p"
  "GPU (refreshMem2 E p) = GPU p" "Name (refreshMem2 E p) = Name p"
  "FrozenAt (refreshMem2 E p) = FrozenAt p" "CRIUDir (refreshMem2 E p) = CRIUDir p"
  by (simp_all add: refreshMem2_def Let_def)

lemma added_with_refl [simp]: "added_with P (set al) al"
  by (simp add: added_with_def)

lemma added_with_update:
  "added_with P S al \<Longrightarrow> P v \<Longrightarrow> added_with P S (AList.update k v al)"
  unfolding added_with_def by (induction al) auto

lemma added_with_delete: "added_with P S al \<Longrightarrow> added_with P S (AList.delete k al)"
  unfolding added_with_def by (induction al) auto

lemma added_with_trans:
  "added_with P S al \<Longrightarrow> added_with P (set al) al' \<Longrightarrow> added_with P S al'"
  unfolding added_with_def by blast

lemma all_procs2_added:
  "all_procs2 P d \<Longrightarrow> added_with P (set (procs2 d)) (procs2 d') \<Longrightarrow> all_procs2 P d'"
  unfolding all_procs2_def added_with_def by blast

lemma admissibleD:
  assumes "admissible E P"
  shows "State p = StateActive \<Longrightarrow> P p" "State p = StateHibernated \<Longrightarrow> P p"
    "State p = StateDead \<Longrightarrow> P p" "P (p\<lparr>State := StateFrozen, FrozenAt := now_frozen E\<rparr>)"
  using assms by (auto simp: admissible_def)

lemma added_Run2:
  "admissible E P \<Longrightarrow> added_with P (set (procs2 d)) (procs2 (snd (Run2 E d params)))"
  by (simp add: Run2_def Let_def added_with_update admissibleD split: option.splits sum.splits)

lemma added_evict_loop:
  assumes "admissible E P"
  shows "added_with P S (procs2 d) \<Longrightarrow>
    added_with P S (procs2 (evict_loop E ks freeRAM sizeMB d))"
proof (induction ks arbitrary: freeRAM d)
  case Nil
  then show ?case by simp
next
  case (Cons k ks)
  from Cons.prems assms show ?case
    by (auto simp: Let_def split_beta admissibleD split: option.splits
        intro!: Cons.IH added_with_update)
qed

lemma added_ensureRAMBudget:
  "added_with P S (procs2 d) \<Longrightarrow> admissible E P \<Longrightarrow>
     added_with P S (procs2 (ensureRAMBudget E d sizeMB))"
  by (simp add: ensureRAMBudget_def Let_def added_evict_loop)

lemma added_Freeze2:
  assumes "admissible E P"
  shows "added_with P (set (procs2 d)) (procs2 (snd (Freeze2 E d n)))"
proof (cases "map_of (procs2 d) n")
  case None
  then show ?thesis by (simp add: Freeze2_def)
next
  case (Some p)
  show ?thesis
  proof (cases "State p = StateActive \<and> Available (cuda2 d)")
    case False
    then show ?thesis using Some by (auto simp: Freeze2_def)
  next
    case True
    define d0 where "d0 = d\<lparr>procs2 := AList.update n (refreshMem2 E p) (procs2 d)\<rparr>"
    define d1 where "d1 = ensureRAMBudget E d0 (MemMB (refreshMem2 E p))"
    have a0: "added_with P (set (procs2 d)) (procs2 d0)"
      using True assms by (simp add: d0_def added_with_update admissibleD)
    have a1: "added_with P (set (procs2 d)) (procs2 d1)"
      using a0 assms unfolding d1_def by (rule added_ensureRAMBudget)
    show ?thesis
      using Some True a1 assms
      by (auto simp: Freeze2_def Let_def split_beta d0_def [symmetric] d1_def [symmetric]
          added_with_update admissibleD split: option.splits)
  qed
qed

lemma added_thawFromRAM:
  "admissible E P \<Longrightarrow> added_with P (set (procs2 d)) (procs2 (snd (thawFromRAM E d k p)))"
  by (simp add: thawFromRAM_def Let_def split_beta added_with_update admissibleD
      split: option.splits)

lemma added_thawFromDisk:
  "admissible E P \<Longrightarrow> added_with P (set (procs2 d)) (procs2 (snd (thawFromDisk E d k p)))"
  by (simp add: thawFromDisk_def Let_def split_beta added_with_update admissibleD
      split: option.splits)

lemma added_Thaw2:
  "admissible E P \<Longrightarrow> added_with P (set (procs2 d)) (procs2 (snd (Thaw2 E d n)))"
  by (simp add: Thaw2_def added_thawFromRAM added_thawFromDisk split: option.splits)

lemma added_Kill2:
  "admissible E P \<Longrightarrow> added_with P (set (procs2 d)) (procs2 (snd (Kill2 E d n)))"
  by (simp add: Kill2_def Let_def added_with_update added_with_delete admissibleD
      split: option.splits)

lemma added_Migrate2:
  "admissible E P \<Longrightarrow> added_with P (set (procs2 d)) (procs2 (snd (Migrate2 E d params)))"
  by (simp add: Migrate2_def Let_def split_beta added_with_update admissibleD
      split: option.splits)

lemma added_fork_loop:
  assumes "admissible E P"
  shows "added_with P S (procs2 d) \<Longrightarrow>
    added_with P S (procs2 (fst (fork_loop E params p dumpDir is d copies)))"
proof (induction "is" arbitrary: d copies)
  case Nil
  then show ?case by simp
next
  case (Cons i "is")
  from Cons.prems assms show ?case
    by (auto simp: Let_def split_beta admissibleD split: option.splits
        intro!: Cons.IH added_with_update)
qed

lemma added_Fork:
  assumes "admissible E P"
  shows "added_with P (set (procs2 d)) (procs2 (snd (Fork E d params)))"
proof (cases "cr_Available (criu2 d)")
  case False
  then show ?thesis by (simp add: Fork_def)
next
  case True
  show ?thesis
  proof (cases "map_of (procs2 d) (fk_Name params)")
    case None
    then show ?thesis using True by (simp add: Fork_def)
  next
    case (Some p0)
    define fz where "fz = (if State p0 = StateActive
        then (case Freeze2 E d (fk_Name params) of
                (Inl e, d') \<Rightarrow> (Some e, d') | (Inr r, d') \<Rightarrow> (None, d'))
        else (None, d))"
    have d1: "added_with P (set (procs2 d)) (procs2 (snd fz))"
      using added_Freeze2 [OF assms, of d "fk_Name params"]
      by (cases "Freeze2 E d (fk_Name params)") (auto simp: fz_def split: sum.splits)
    show ?thesis
      using True Some d1 assms
      by (auto simp: Fork_def Let_def split_beta fz_def [symmetric] split: option.splits
          intro!: added_fork_loop)
  qed
qed

lemma added_Hibernate_state4:
  "added_with (\<lambda>p. state4 (State p)) (set (procs2 d)) (procs2 (snd (Hibernate E d n)))"
  by (simp add: Hibernate_def Let_def split_beta added_with_update state4_def
      split: option.splits)

lemma added_Hibernate_not_active:
  assumes "admissible E P"
    and "\<And>p. map_of (procs2 d) n = Some p \<Longrightarrow> State p \<noteq> StateActive"
  shows "added_with P (set (procs2 d)) (procs2 (snd (Hibernate E d n)))"
  using assms
  by (auto simp: Hibernate_def Let_def split_beta added_with_update admissibleD
      split: option.splits)

lemma added_Status2_loop:
  assumes "admissible E P"
  shows "added_with P S (procs2 d) \<Longrightarrow>
    added_with P S (procs2 (fst (Status2_loop E ks d infos s1 s2)))"
proof (induction ks arbitrary: d infos s1 s2)
  case Nil
  then show ?case by simp
next
  case (Cons k ks)
  from Cons.prems assms show ?case
    by (auto simp: Let_def admissibleD split: option.splits
        intro!: Cons.IH added_with_update)
qed

lemma added_Status2:
  "admissible E P \<Longrightarrow> added_with P (set (procs2 d)) (procs2 (snd (Status2 E d)))"
  by (simp add: Status2_def Let_def split_beta added_Status2_loop)

lemma added_Logs2: "added_with P (set (procs2 d)) (procs2 (snd (Logs2 E d n k)))"
  by (simp add: Logs2_def Let_def split: option.splits sum.splits)

lemma added_monitorProcess2:
  "admissible E P \<Longrightarrow> added_with P (set (procs2 d)) (procs2 (monitorProcess2 E d n err))"
  by (simp add: monitorProcess2_def Let_def added_with_update admissibleD split: option.splits)

lemma added_monitorPID:
  "admissible E P \<Longrightarrow> added_with P (set (procs2 d)) (procs2 (monitorPID E d n pid))"
  by (simp add: monitorPID_def Let_def added_with_update admissibleD split: option.splits)

lemma added_sampleMem2:
  "admissible E P \<Longrightarrow> added_with P (set (procs2 d)) (procs2 (sampleMem2 E d n))"
  by (simp add: sampleMem2_def Let_def added_with_update admissibleD split: option.splits)

lemma procs2_Shutdown2_loop: "procs2 (Shutdown2_loop ks d) = procs2 d"
  by (induction ks arbitrary: d) (auto split: option.splits)

lemma added_Shutdown2: "added_with P (set (procs2 d)) (procs2 (Shutdown2 E d))"
  by (simp add: Shutdown2_def procs2_Shutdown2_loop)

lemma added_applyOp2:
  assumes "admissible E P" and "\<not> hibernates_active d op"
  shows "added_with P (set (procs2 d)) (procs2 (applyOp2 E d op))"
proof (cases op)
  case (OHibernate n)
  then show ?thesis
    using assms
    by (auto simp: hibernates_active_def split: option.splits
        intro!: added_Hibernate_not_active)
qed (use assms(1) in \<open>simp_all add: added_Run2 added_Freeze2 added_Thaw2 added_Kill2
      added_Fork added_Migrate2 added_Status2 added_Logs2 added_monitorProcess2
      added_monitorPID added_sampleMem2 added_Shutdown2 Subscribe2_def Unsubscribe2_def
      recvEvent2_def countRequest2_def\<close>)

lemma admissible_state4: "admissible E (\<lambda>p. state4 (State p))"
  by (simp add: admissible_def state4_def)


lemma added_applyOp2_state4:
  "added_with (\<lambda>p. state4 (State p)) (set (procs2 d)) (procs2 (applyOp2 E d op))"
proof (cases "hibernates_active d op")
  case False
  then show ?thesis by (intro added_applyOp2 admissible_state4)
next
  case True
  then obtain n where "op = OHibernate n"
    by (cases op) (auto simp: hibernates_active_def)
  then show ?thesis by (simp add: added_Hibernate_state4)
qed

lemma reachable2_state4: "reachable2 d \<Longrightarrow> all_procs2 (\<lambda>p. state4 (State p)) d"
proof (induction rule: reachable2.induct)
  case (r2_New E c cr cfg0)
  show ?case by (simp add: New2_def Let_def all_procs2_def)
next
  case (r2_step d E op)
  then show ?case by (blast intro: all_procs2_added added_applyOp2_state4)
qed

lemma base_simps [simp]:
  "run_tool (base E) = run_tool E" "gpu_mem (base E) = gpu_mem E"
  "fmt_q (base E) = fmt_q E" "trim_space (base E) = trim_space E"
  "site_packages (base E) = site_packages E"
  by (simp_all add: base_def env.truncate_def)

lemma Freeze2_entry:
  assumes "Freeze2 E d n = (Inr r, d')"
  shows "\<exists>p. map_of (procs2 d) n = Some p \<and> State p = StateActive \<and> Available (cuda2 d)
           \<and> map_of (procs2 d') n
               = Some ((refreshMem2 E p)\<lparr>State := StateFrozen, FrozenAt := now_frozen E\<rparr>)
           \<and> fr_Name r = n \<and> fr_Tier r = TierRAM \<and> fr_MemMB r = MemMB (refreshMem2 E p)
           \<and> fr_DurationMs r = Milliseconds (fst (fst (CUDA_Freeze (cuda2 d) (base E) (PID p)
                 (io2 (ensureRAMBudget E
                    (d\<lparr>procs2 := AList.update n (refreshMem2 E p) (procs2 d)\<rparr>)
                    (MemMB (refreshMem2 E p)))))))"
  using assms
  by (auto simp: Freeze2_def Let_def update_conv' split: if_splits option.splits prod.splits)



lemma Freeze2_okEnv2:
  "Freeze2 okEnv2 (daemonWith2 [(''a'', procA2 StateActive)]) ''a''
     = (Inr \<lparr>fr_Name = ''a'', fr_DurationMs = 4, fr_Tier = TierRAM, fr_MemMB = 512\<rparr>,
        snd (Freeze2 okEnv2 (daemonWith2 [(''a'', procA2 StateActive)]) ''a''))"
proof -
  have "fst (Freeze2 okEnv2 (daemonWith2 [(''a'', procA2 StateActive)]) ''a'')
      = Inr \<lparr>fr_Name = ''a'', fr_DurationMs = 4, fr_Tier = TierRAM, fr_MemMB = 512\<rparr>"
    by (simp add: Freeze2_def daemonWith2_def newDaemon2_def New2_def Let_def okEnv2_def
        procA2_def cudaOn_def criuOn_def CUDA_Freeze_def Lock_def Checkpoint_def run_def
        exec_def ensureRAMBudget_def refreshMem2_def zeroMetrics_def state_defs
        word_sless_alt Milliseconds_def quo_def signed_divide_int_def)
  then show ?thesis by (metis prod.collapse)
qed



lemma state4_Status2_loop:
  assumes "all_procs2 (\<lambda>p. state4 (State p)) d" and "\<forall>i \<in> set infos. state4 (pi_State i)"
  shows "\<forall>i \<in> set (fst (snd (Status2_loop E ks d infos s1 s2))). state4 (pi_State i)"
  using assms
proof (induction ks arbitrary: d infos s1 s2)
  case Nil
  then show ?case by simp
next
  case (Cons k ks)
  show ?case
  proof (cases "map_of (procs2 d) k")
    case None
    then show ?thesis using Cons by simp
  next
    case (Some p)
    have okp: "state4 (State p)"
      using Cons.prems(1) Some unfolding all_procs2_def by (auto dest!: map_of_SomeD)
    define p1 where "p1 = (if State p = StateActive then refreshMem2 E p else p)"
    define d1 where
      "d1 = (if State p = StateActive then d\<lparr>procs2 := AList.update k p1 (procs2 d)\<rparr> else d)"
    define t1 where "t1 = (if State p1 = StateFrozen then s1 + MemMB p1 else s1)"
    define t2 where "t2 = (if State p1 = StateHibernated then s2 + MemMB p1 else s2)"
    define info where
      "info = \<lparr>pi_Name = Name p1, pi_PID = PID p1, pi_State = State p1, pi_GPU = GPU p1,
         pi_MemMB = MemMB p1, pi_Age = age_of E (Started p1), pi_Started = Started p1,
         pi_Tier = (if State p1 = StateFrozen then TierRAM
                    else if State p1 = StateHibernated then TierDisk else TierGPU)\<rparr>"
    have step: "Status2_loop E (k # ks) d infos s1 s2
        = Status2_loop E ks d1 (infos @ [info]) t1 t2"
      using Some by (simp add: Let_def p1_def d1_def t1_def t2_def info_def)
    have okp1: "state4 (State p1)" using okp by (auto simp: p1_def state4_def)
    have "added_with (\<lambda>p. state4 (State p)) (set (procs2 d)) (procs2 d1)"
      using okp1 by (simp add: d1_def added_with_update)
    with Cons.prems(1) have k1: "all_procs2 (\<lambda>p. state4 (State p)) d1"
      by (rule all_procs2_added)
    have "\<forall>i \<in> set (infos @ [info]). state4 (pi_State i)"
      using Cons.prems(2) okp1 by (simp add: info_def)
    from Cons.IH [OF k1 this] show ?thesis
      unfolding step .
  qed
qed

lemma order_of2_simps [simp]:
  "order_of2 StateActive = 0" "order_of2 StateFrozen = 1"
  "order_of2 StateHibernated = 2" "order_of2 StateDead = 3"
  by (simp_all add: order_of2_def order2_def state_defs)

lemma less_state2_rank:
  assumes "state4 (pi_State a)" and "state4 (pi_State b)"
  shows "less_state2 a b \<longleftrightarrow> spec_rank (pi_State a) < spec_rank (pi_State b)"
  using assms
  by (auto simp: state4_def less_state2_def word_sless_alt)

lemma Status2_sorted:
  assumes "all_procs2 (\<lambda>p. state4 (State p)) d"
  shows "sorted (map (\<lambda>i. spec_rank (pi_State i)) (sr_Processes (fst (Status2 E d))))"
proof -
  let ?infos = "fst (snd (Status2_loop E (range_keys E (map fst (procs2 d))) d [] 0 0))"
  have "\<forall>i \<in> set ?infos. state4 (pi_State i)"
    using state4_Status2_loop [OF assms, of "[]" E "range_keys E (map fst (procs2 d))" 0 0]
    by simp
  then have "\<forall>a \<in> set ?infos. \<forall>b \<in> set ?infos.
      less_state2 a b \<longleftrightarrow> spec_rank (pi_State a) < spec_rank (pi_State b)"
    by (simp add: less_state2_rank)
  then have "sorted (map (\<lambda>i. spec_rank (pi_State i))
      (sort_Slice (sort_choice E) less_state2 ?infos))"
    by (rule sort_Slice_sorted(1))
  then show ?thesis
    by (simp add: Status2_def Let_def split_beta)
qed

lemma Status_sorted:
  assumes "known_states d"
  shows "sorted (map (\<lambda>i. spec_rank (pi_State i)) (sr_Processes (fst (Status E d))))"
proof -
  let ?infos = "fst (snd (Status_loop E (range_keys E (map fst (procs d))) d [] 0))"
  have "\<forall>i \<in> set ?infos. ok_state (pi_State i)"
    using known_Status_loop [OF assms, of "[]" E "range_keys E (map fst (procs d))" 0] by simp
  then have "\<forall>a \<in> set ?infos. \<forall>b \<in> set ?infos.
      less_state a b \<longleftrightarrow> spec_rank (pi_State a) < spec_rank (pi_State b)"
    by (simp add: less_state_rank)
  then have "sorted (map (\<lambda>i. spec_rank (pi_State i))
      (sort_Slice (sort_choice E) less_state ?infos))"
    by (rule sort_Slice_sorted(1))
  then show ?thesis
    by (simp add: Status_def Let_def split_beta)
qed

lemma reachable2_foldl:
  "reachable2 d \<Longrightarrow> reachable2 (foldl (applyOp2 E) d ops)"
  by (induction ops arbitrary: d) (simp_all add: r2_step)

lemma reachable2_fourProcs: "reachable2 fourProcs"
  unfolding fourProcs_def newDaemon2_def by (intro reachable2_foldl r2_New)

section \<open>Concrete runs of the two copies\<close>

lemma Freeze_okEnv:
  "Freeze okEnv (daemonWith cudaOn [(''a'', procA StateActive)]) ''a''
     = (Inr \<lparr>fr_Name = ''a'', fr_DurationMs = 4, fr_Tier = [], fr_MemMB = 512\<rparr>,
        snd (Freeze okEnv (daemonWith cudaOn [(''a'', procA StateActive)]) ''a''))"
proof -
  have "fst (Freeze okEnv (daemonWith cudaOn [(''a'', procA StateActive)]) ''a'')
      = Inr \<lparr>fr_Name = ''a'', fr_DurationMs = 4, fr_Tier = [], fr_MemMB = 512\<rparr>"
    by (simp add: Freeze_def daemonWith_def New_def Let_def okEnv_def
        procA_def cudaOn_def CUDA_Freeze_def Lock_def Checkpoint_def run_def
        exec_def refreshMem_def zeroMetrics_def state_defs
        word_sless_alt Milliseconds_def quo_def signed_divide_int_def)
  then show ?thesis by (metis prod.collapse)
qed

lemma Freeze_okEnv_fst:
  "fst (Freeze okEnv (daemonWith cudaOn [(''a'', procA StateActive)]) ''a'')
     = Inr \<lparr>fr_Name = ''a'', fr_DurationMs = 4, fr_Tier = [], fr_MemMB = 512\<rparr>"
  using Freeze_okEnv by (metis fst_conv)

lemma Freeze2_okEnv2_fst:
  "fst (Freeze2 okEnv2 (daemonWith2 [(''a'', procA2 StateActive)]) ''a'')
     = Inr \<lparr>fr_Name = ''a'', fr_DurationMs = 4, fr_Tier = TierRAM, fr_MemMB = 512\<rparr>"
  using Freeze2_okEnv2 by (metis fst_conv)

lemma procs2_fourProcs_full:
  "procs2 fourProcs =
     [(''a'', \<lparr>Name = ''a'', PID = 4242, State = StateFrozen, GPU = 0, MemMB = 512,
               Started = 10, Cmd = [''sleep'', ''3600''], LogPath = ''/tmp/l/a.log'',
               logFile = Some ''/tmp/l/a.log'', FrozenAt = 12, CRIUDir = []\<rparr>),
      (''b'', \<lparr>Name = ''b'', PID = 4343, State = StateHibernated, GPU = 1, MemMB = 512,
               Started = 10, Cmd = [''sleep'', ''60''], LogPath = ''/tmp/l/b.log'',
               logFile = Some ''/tmp/l/b.log'', FrozenAt = 0, CRIUDir = ''/tmp/s/b''\<rparr>),
      (''c'', \<lparr>Name = ''c'', PID = 4444, State = StateDead, GPU = 0, MemMB = 0,
               Started = 10, Cmd = [''true''], LogPath = ''/tmp/l/c.log'',
               logFile = Some ''/tmp/l/c.log'', FrozenAt = 0, CRIUDir = []\<rparr>),
      (''e'', \<lparr>Name = ''e'', PID = 4545, State = StateActive, GPU = 1, MemMB = 0,
               Started = 10, Cmd = [''cat''], LogPath = ''/tmp/l/e.log'',
               logFile = Some ''/tmp/l/e.log'', FrozenAt = 0, CRIUDir = []\<rparr>)]"
  by (simp add: fourProcs_def newDaemon2_def New2_def Run2_def Freeze2_def Hibernate_def
      monitorProcess2_def ensureRAMBudget_def Let_def
      okEnv2_def runA_def runB_def runC_def runE_def cudaOn_def criuOn_def CUDA_Freeze_def
      Lock_def Checkpoint_def run_def exec_def CRIU_Dump_def DumpDir_def tool_args_def
      refreshMem2_def zeroMetrics_def state_defs word_sless_alt emit2_def event_def
      update_conv')

lemma Status2_fourProcs:
  "map pi_Name (sr_Processes (fst (Status2 okEnv2 fourProcs))) = [''e'', ''a'', ''b'', ''c'']
   \<and> map pi_State (sr_Processes (fst (Status2 okEnv2 fourProcs)))
       = [StateActive, StateFrozen, StateHibernated, StateDead]"
  by (simp add: Status2_def Let_def split_beta procs2_fourProcs_full sort_Slice_def
      less_state2_def refreshMem2_def okEnv2_def word_sless_alt state_defs order_of2_def
      order2_def)

lemma reachable_twoProcs: "reachable twoProcs"
  unfolding twoProcs_def by (intro r_Freeze r_Run r_New)

lemma procs_twoProcs:
  "procs twoProcs =
      [(''a'', (procA StateFrozen)\<lparr>MemMB := 512\<rparr>),
       (''b'', \<lparr>Name = ''b'', PID = 4343, State = StateActive, GPU = 1, MemMB = 0,
                Started = 10, Cmd = [''sleep'', ''60''], LogPath = ''/tmp/l/b.log'',
                logFile = Some ''/tmp/l/b.log''\<rparr>)]"
  by (simp add: twoProcs_def Freeze_def Run_def New_def Let_def okEnv_def runA_def runB_def
      procA_def cudaOn_def CUDA_Freeze_def Lock_def Checkpoint_def run_def exec_def
      refreshMem_def zeroMetrics_def state_defs word_sless_alt emit_def event_def)

lemma Status_twoProcs:
  "map pi_Name (sr_Processes (fst (Status okEnv twoProcs))) = [''b'', ''a'']
   \<and> map pi_State (sr_Processes (fst (Status okEnv twoProcs))) = [StateActive, StateFrozen]"
  by (simp add: Status_def Let_def split_beta procs_twoProcs sort_Slice_def less_state_def
      refreshMem_def okEnv_def procA_def word_sless_alt state_defs order_of_def order_def)

section \<open>The frozen-at time of an entry\<close>




section \<open>The result of a freeze\<close>

text \<open>
  Claim C3, as stated, fails. In the copy of the daemon without the disk tier, the result
  of a successful \<open>Freeze\<close> has the empty string as tier, which is not \<open>ram\<close>.
\<close>

theorem Freeze_result_tier_empty:
  "fst (Freeze okEnv (daemonWith cudaOn [(''a'', procA StateActive)]) ''a'')
     = Inr \<lparr>fr_Name = ''a'', fr_DurationMs = 4, fr_Tier = [], fr_MemMB = 512\<rparr>
   \<and> fr_Tier (projr (fst (Freeze okEnv (daemonWith cudaOn [(''a'', procA StateActive)]) ''a'')))
       \<noteq> TierRAM"
  by (simp add: Freeze_okEnv_fst TierRAM_def)

text \<open>
  Claim C3, as the code has it. The result of a successful \<open>Freeze\<close> carries the name of
  the process, the duration of the tool's lock and checkpoint in milliseconds and the
  memory footprint of the entry. Its tier is \<open>ram\<close> in the copy of the daemon with the
  disk tier; in the other copy the tier is left at the zero value of the type, the empty
  string.
\<close>

theorem Freeze_result_fields:
  "(\<forall>r d'. Freeze2 E2 d2 n2 = (Inr r, d') \<longrightarrow>
      (\<exists>p. map_of (procs2 d2) n2 = Some p
         \<and> fr_Name r = n2 \<and> fr_MemMB r = MemMB (refreshMem2 E2 p)
         \<and> fr_DurationMs r = Milliseconds (fst (fst (CUDA_Freeze (cuda2 d2) (base E2) (PID p)
              (io2 (ensureRAMBudget E2
                 (d2\<lparr>procs2 := AList.update n2 (refreshMem2 E2 p) (procs2 d2)\<rparr>)
                 (MemMB (refreshMem2 E2 p)))))))
         \<and> fr_Tier r = TierRAM))
   \<and> (\<forall>r d'. Freeze E d n = (Inr r, d') \<longrightarrow>
        (\<exists>p. map_of (procs d) n = Some p
           \<and> fr_Name r = n \<and> fr_MemMB r = MemMB (refreshMem E p)
           \<and> fr_DurationMs r
               = Milliseconds (fst (fst (CUDA_Freeze (cuda d) E (PID p) (io d))))
           \<and> fr_Tier r = []))"
proof (intro conjI allI impI)
  fix r d' assume "Freeze2 E2 d2 n2 = (Inr r, d')"
  from Freeze2_entry [OF this]
  show "\<exists>p. map_of (procs2 d2) n2 = Some p
         \<and> fr_Name r = n2 \<and> fr_MemMB r = MemMB (refreshMem2 E2 p)
         \<and> fr_DurationMs r = Milliseconds (fst (fst (CUDA_Freeze (cuda2 d2) (base E2) (PID p)
              (io2 (ensureRAMBudget E2
                 (d2\<lparr>procs2 := AList.update n2 (refreshMem2 E2 p) (procs2 d2)\<rparr>)
                 (MemMB (refreshMem2 E2 p)))))))
         \<and> fr_Tier r = TierRAM"
    by blast
next
  fix r d' assume "Freeze E d n = (Inr r, d')"
  from Freeze_entry [OF this]
  show "\<exists>p. map_of (procs d) n = Some p
           \<and> fr_Name r = n \<and> fr_MemMB r = MemMB (refreshMem E p)
           \<and> fr_DurationMs r
               = Milliseconds (fst (fst (CUDA_Freeze (cuda d) E (PID p) (io d))))
           \<and> fr_Tier r = []"
    by auto
qed

theorem Freeze_result_fields_witness:
  "fst (Freeze2 okEnv2 (daemonWith2 [(''a'', procA2 StateActive)]) ''a'')
     = Inr \<lparr>fr_Name = ''a'', fr_DurationMs = 4, fr_Tier = ''ram'', fr_MemMB = 512\<rparr>
   \<and> fst (Freeze okEnv (daemonWith cudaOn [(''a'', procA StateActive)]) ''a'')
     = Inr \<lparr>fr_Name = ''a'', fr_DurationMs = 4, fr_Tier = [], fr_MemMB = 512\<rparr>"
proof -
  obtain r2 d2' where
    h2: "Freeze2 okEnv2 (daemonWith2 [(''a'', procA2 StateActive)]) ''a'' = (Inr r2, d2')"
    using Freeze2_okEnv2 by blast
  obtain r d' where
    h: "Freeze okEnv (daemonWith cudaOn [(''a'', procA StateActive)]) ''a'' = (Inr r, d')"
    using Freeze_okEnv by blast
  from Freeze_result_fields
         [of okEnv2 "daemonWith2 [(''a'', procA2 StateActive)]" "''a''" okEnv
             "daemonWith cudaOn [(''a'', procA StateActive)]" "''a''"] h2 h
  have "fr_Tier r2 = TierRAM \<and> fr_Tier r = []" by blast
  with h2 h Freeze2_okEnv2_fst Freeze_okEnv_fst show ?thesis
    by (simp add: TierRAM_def)
qed

section \<open>The order of the process list, in both copies\<close>

text \<open>
  Claim C9. In every state the daemon can reach, the process list of a status snapshot
  is ordered by state: Active entries first, then Frozen, then Hibernated, then Dead.
  This holds of both copies of the daemon. The copy with the disk tier has Hibernated
  entries, and its comparison function ranks them third; no operation of the other copy
  produces a Hibernated entry.
\<close>

theorem Status_sorted_by_state:
  "(reachable2 d2 \<longrightarrow>
      sorted (map (\<lambda>i. spec_rank (pi_State i)) (sr_Processes (fst (Status2 E2 d2)))))
   \<and> (reachable d \<longrightarrow>
      sorted (map (\<lambda>i. spec_rank (pi_State i)) (sr_Processes (fst (Status E d)))))"
  by (blast intro: Status2_sorted reachable2_state4 Status_sorted reachable_known_states)

theorem Status_sorted_by_state_witness:
  "reachable2 fourProcs
   \<and> sorted (map (\<lambda>i. spec_rank (pi_State i)) (sr_Processes (fst (Status2 okEnv2 fourProcs))))
   \<and> map pi_Name (sr_Processes (fst (Status2 okEnv2 fourProcs))) = [''e'', ''a'', ''b'', ''c'']
   \<and> map pi_State (sr_Processes (fst (Status2 okEnv2 fourProcs)))
       = [StateActive, StateFrozen, StateHibernated, StateDead]
   \<and> reachable twoProcs
   \<and> sorted (map (\<lambda>i. spec_rank (pi_State i)) (sr_Processes (fst (Status okEnv twoProcs))))
   \<and> map pi_Name (sr_Processes (fst (Status okEnv twoProcs))) = [''b'', ''a'']
   \<and> map pi_State (sr_Processes (fst (Status okEnv twoProcs))) = [StateActive, StateFrozen]"
  using Status_sorted_by_state [of fourProcs okEnv2 twoProcs okEnv]
    reachable2_fourProcs reachable_twoProcs Status2_fourProcs Status_twoProcs
  by simp

end
